theory Spec2Isabelle
  imports Main "HOL-Library.AList"
begin

section \<open>Python values, dictionaries and strings\<close>

text \<open>
  The dispatcher of \<^verbatim>\<open>broker_manager.py\<close> moves request parameters, cluster
  records and provider contexts around as Python dictionaries with string keys. The values
  that the dispatcher itself inspects are \<^verbatim>\<open>None\<close>, integers and strings; on these
  three kinds Python's \<^verbatim>\<open>==\<close> is structural equality. A dictionary is an association
  list in insertion order, read with \<open>map_of\<close> and written with \<open>AList.update\<close>, which
  replaces the value of an existing key in place and appends a new key at the end, as a
  Python dictionary does.
\<close>

datatype pyval = PNone | PInt int | PStr string

type_synonym pydict = "(string \<times> pyval) list"

datatype cse_msg =
    ClusterAlreadyFound pyval
  | VdcNotEnabled pyval
  | PksConfigMissing
  | CseOther string

text \<open>
  The exceptions are the subclasses of \<^verbatim>\<open>Exception\<close> that the dispatcher raises
  itself or that a collaborator can raise. \<open>ClusterNotFoundError (PStr n)\<close> raised by
  the dispatcher stands for the message \<^verbatim>\<open>cluster n not found either in vCD or PKS\<close>;
  \<open>PksServerError st\<close> carries the \<^verbatim>\<open>status\<close> attribute.
\<close>

datatype exn =
    ClusterNotFoundError pyval
  | CseServerError cse_msg
  | PksServerError pyval
  | KeyError string
  | AttributeError
  | OtherException string

fun truthy :: "pyval \<Rightarrow> bool" where
  "truthy PNone = False"
| "truthy (PInt n) = (n \<noteq> 0)"
| "truthy (PStr s) = (s \<noteq> [])"

definition py_or :: "pyval \<Rightarrow> pyval \<Rightarrow> pyval" where
  \<comment> \<open>\<^verbatim>\<open>a or b\<close>\<close>
  "py_or a b = (if truthy a then a else b)"

definition dict_get_default :: "pydict \<Rightarrow> string \<Rightarrow> pyval \<Rightarrow> pyval" where
  \<comment> \<open>\<^verbatim>\<open>d.get(k, default)\<close>\<close>
  "dict_get_default d k dflt = (case map_of d k of None \<Rightarrow> dflt | Some v \<Rightarrow> v)"

definition dict_get :: "pydict \<Rightarrow> string \<Rightarrow> pyval" where
  \<comment> \<open>\<^verbatim>\<open>d.get(k)\<close>\<close>
  "dict_get d k = dict_get_default d k PNone"

definition dict_index :: "pydict \<Rightarrow> string \<Rightarrow> exn + pyval" where
  \<comment> \<open>\<^verbatim>\<open>d[k]\<close>, which raises \<^verbatim>\<open>KeyError\<close> on a missing key\<close>
  "dict_index d k = (case map_of d k of None \<Rightarrow> Inl (KeyError k) | Some v \<Rightarrow> Inr v)"

text \<open>
  Strings are lists of 8-bit characters; \<^verbatim>\<open>str.lower\<close> is modelled on ASCII letters.
  Calling \<^verbatim>\<open>lower\<close> or \<^verbatim>\<open>split\<close> on \<^verbatim>\<open>None\<close> or on an integer raises
  \<^verbatim>\<open>AttributeError\<close>.
\<close>

definition char_lower :: "char \<Rightarrow> char" where
  "char_lower c =
     (let n = (of_char c :: nat) in if 65 \<le> n \<and> n \<le> 90 then char_of (n + 32) else c)"

definition str_lower :: "string \<Rightarrow> string" where
  "str_lower s = map char_lower s"

definition py_lower :: "pyval \<Rightarrow> exn + string" where
  \<comment> \<open>\<^verbatim>\<open>v.lower()\<close>\<close>
  "py_lower v = (case v of PStr s \<Rightarrow> Inr (str_lower s) | _ \<Rightarrow> Inl AttributeError)"

text \<open>
  \<^verbatim>\<open>s.split(sep)\<close> scans from the left and cuts at every occurrence of the separator
  that does not overlap an earlier one; the result is never empty. \<open>cur\<close> holds the
  segment read so far, reversed.
\<close>

function str_split_aux :: "string \<Rightarrow> string \<Rightarrow> string \<Rightarrow> string list" where
  "str_split_aux sep cur [] = [rev cur]"
| "str_split_aux sep cur (c # cs) =
     (if sep \<noteq> [] \<and> take (length sep) (c # cs) = sep
      then rev cur # str_split_aux sep [] (drop (length sep) (c # cs))
      else str_split_aux sep (c # cur) cs)"
  by pat_completeness auto
termination
  by (relation "measure (\<lambda>(sep, cur, s). length s)") auto

definition str_split :: "string \<Rightarrow> string \<Rightarrow> string list" where
  "str_split sep s = str_split_aux sep [] s"

definition py_split_last :: "pyval \<Rightarrow> string \<Rightarrow> exn + string" where
  \<comment> \<open>\<^verbatim>\<open>v.split(sep)[-1]\<close>\<close>
  "py_split_last v sep =
     (case v of PStr s \<Rightarrow> Inr (last (str_split sep s)) | _ \<Rightarrow> Inl AttributeError)"

section \<open>Brokers\<close>

text \<open>
  \<^verbatim>\<open>VcdBroker(req_headers, req_spec)\<close> and \<^verbatim>\<open>PKSBroker(req_headers, req_spec, pks_ctx)\<close>:
  the headers and the request body are those of the one request being dispatched, so a
  broker is identified by its kind and, for the external service, its account context.
\<close>

datatype broker = VcdBroker | PKSBroker pydict

definition CONTAINER_PROVIDER_KEY :: string where
  \<comment> \<open>Modelled from the spec: the constant \<^verbatim>\<open>CONTAINER_PROVIDER_KEY\<close> of
      \<^verbatim>\<open>ovdc_cache\<close> is not part of the source at hand; it is the key of the
      provider-kind tag of a record.\<close>
  "CONTAINER_PROVIDER_KEY = ''container_provider''"

datatype CtrProvType = VCD | PKS | NONE

fun CtrProvType_value :: "CtrProvType \<Rightarrow> pyval" where
  \<comment> \<open>Modelled from the spec: the enumeration \<^verbatim>\<open>CtrProvType\<close> of \<^verbatim>\<open>ovdc_cache\<close>
      is not part of the source at hand; its three values are the provider kinds
      NativeCompute, ExternalService and Unset.\<close>
  "CtrProvType_value VCD = PStr ''vcd''"
| "CtrProvType_value PKS = PStr ''pks''"
| "CtrProvType_value NONE = PStr ''none''"

section \<open>Projection of an external-service cluster\<close>

definition dict_comprehension :: "pydict \<Rightarrow> pyval \<Rightarrow> string list \<Rightarrow> pydict" where
  \<comment> \<open>\<^verbatim>\<open>{k: cluster.get(k, dflt) for k in keys}\<close>\<close>
  "dict_comprehension cluster dflt keys =
     foldl (\<lambda>d k. AList.update k (dict_get_default cluster k dflt) d) [] keys"

definition get_truncated_cluster_info :: "pydict \<Rightarrow> broker \<Rightarrow> string list \<Rightarrow> exn + pydict" where
  "get_truncated_cluster_info cluster pks_broker cluster_property_keys =
     (let pks_cluster = dict_comprehension cluster PNone cluster_property_keys;
          compute_profile_name = dict_get_default cluster ''compute-profile-name'' (PStr [])
      in case (if truthy compute_profile_name
               then py_split_last compute_profile_name ''--''
               else Inr [])
         of Inl e \<Rightarrow> Inl e
          | Inr vdc \<Rightarrow>
              (let pks_cluster = AList.update ''vdc'' (PStr vdc) pks_cluster
               in case py_lower (dict_get_default cluster ''last-action'' (PStr [])) of
                    Inl e \<Rightarrow> Inl e
                  | Inr la \<Rightarrow>
                      (case py_lower (dict_get_default pks_cluster ''status'' (PStr [])) of
                         Inl e \<Rightarrow> Inl e
                       | Inr st \<Rightarrow>
                           Inr (AList.update ''status'' (PStr (la @ '' '' @ st)) pks_cluster))))"

section \<open>Collaborators and the trace of a dispatch\<close>

text \<open>
  The brokers, the directory of virtual datacenters (\<^verbatim>\<open>OvdcCache\<close>), the account
  configuration (\<^verbatim>\<open>get_pks_cache\<close>) and the session of the caller are imported by
  \<^verbatim>\<open>broker_manager.py\<close> from other modules; here they are parameters of the dispatcher.
  The constructors of the brokers and of \<^verbatim>\<open>Org\<close>, the flags of the session and
  \<^verbatim>\<open>construct_pks_context\<close> are taken to return without raising; every call that
  reaches a remote service or looks an entity up may raise. Exceptions are the subclasses
  of \<^verbatim>\<open>Exception\<close>, which is what \<^verbatim>\<open>except Exception\<close> catches.
\<close>

text \<open>
  Keyword arguments of a call to a collaborator: a name and a value, a record or a flag.
\<close>

datatype arg = AVal pyval | ARec pydict | ABool bool

type_synonym kwargs = "(string \<times> arg) list"

fun arg_of_option :: "pydict option \<Rightarrow> arg" where
  "arg_of_option None = AVal PNone"
| "arg_of_option (Some d) = ARec d"

record VDC =
  resource :: pydict

record Org =
  get_name :: pyval
  list_vdcs :: "pydict list"

text \<open>The messages handed to \<^verbatim>\<open>LOGGER.debug\<close>, by their parameters.\<close>

datatype logmsg =
    LogGetClusterInfoFailedOnVcd pyval exn
  | LogGetClusterInfoFailedOnPks pyval pyval exn
  | LogOrgVdc pyval pyval
  | LogOvdcMetadata pyval pyval pydict
  | LogCreatingComputeProfile pyval
  | LogComputeProfileExists pyval exn

text \<open>
  Every call to a broker, every lookup or update of the ownership metadata of a
  virtual datacenter and every log entry is recorded, with what it answered, in the order
  in which the dispatcher makes it.
\<close>

datatype event =
    EvGetClusterInfo broker pyval "exn + pydict"
  | EvGetClusterConfig broker pyval "exn + pyval"
  | EvListClusters broker "exn + pydict list"
  | EvCreateCluster broker kwargs "exn + pyval"
  | EvResizeCluster broker kwargs "exn + pyval"
  | EvDeleteCluster broker kwargs "exn + pyval"
  | EvCreateComputeProfile broker kwargs "exn + unit"
  | EvGetMetadata kwargs "exn + pydict"
  | EvSetMetadata VDC kwargs "exn + pydict"
  | EvLog logmsg

text \<open>
  \<^verbatim>\<open>get_pks_cache()\<close>: the configuration of the external-service accounts, absent when
  the server runs without one.
\<close>

record PksCache =
  get_all_pks_account_info_in_system :: "pydict list"
  do_orgs_have_exclusive_pks_account :: bool
  get_exclusive_pks_accounts_info_for_org :: "pyval \<Rightarrow> pydict list"
  get_pvdc_info :: "pyval \<Rightarrow> exn + pydict"
  get_pks_account_info :: "pyval \<Rightarrow> pyval \<Rightarrow> exn + pydict"
  get_nsxt_info :: "pyval \<Rightarrow> exn + pydict"

text \<open>
  The collaborators of the dispatcher are parameters. A broker is a remote service: what
  it answers may depend on the calls made before, so it reads the trace. The directory of
  virtual datacenters (\<^verbatim>\<open>OvdcCache\<close>) and the session of the caller
  (\<^verbatim>\<open>vcd_client\<close>) are read-only while one request is dispatched.
\<close>

record world =
  broker_get_cluster_info :: "event list \<Rightarrow> broker \<Rightarrow> pyval \<Rightarrow> exn + pydict"
  broker_get_cluster_config :: "event list \<Rightarrow> broker \<Rightarrow> pyval \<Rightarrow> exn + pyval"
  broker_list_clusters :: "event list \<Rightarrow> broker \<Rightarrow> exn + pydict list"
  broker_create_cluster :: "event list \<Rightarrow> broker \<Rightarrow> kwargs \<Rightarrow> exn + pyval"
  broker_resize_cluster :: "event list \<Rightarrow> broker \<Rightarrow> kwargs \<Rightarrow> exn + pyval"
  broker_delete_cluster :: "event list \<Rightarrow> broker \<Rightarrow> kwargs \<Rightarrow> exn + pyval"
  broker_create_compute_profile :: "event list \<Rightarrow> broker \<Rightarrow> kwargs \<Rightarrow> exn + unit"
  get_ovdc_container_provider_metadata :: "kwargs \<Rightarrow> exn + pydict"
  set_ovdc_container_provider_metadata :: "event list \<Rightarrow> VDC \<Rightarrow> kwargs \<Rightarrow> exn + pydict"
  get_ovdc :: "pyval \<Rightarrow> exn + VDC"
  get_pvdc_id :: "VDC \<Rightarrow> exn + pyval"
  get_compute_profile_name :: "pyval \<Rightarrow> pyval \<Rightarrow> exn + pyval"
  construct_pks_context :: "kwargs \<Rightarrow> pydict"
  is_sysadmin :: bool
  get_org_list :: "Org list"
  get_org :: Org
  list_of_org_resource :: "Org \<Rightarrow> Org list"

text \<open>
  The fields of a \<^verbatim>\<open>BrokerManager\<close> that belong to the request.
  \<open>is_ovdc_present_in_request\<close> is set by \<open>invoke\<close>.
\<close>

record BrokerManager =
  req_qparams :: pydict
  req_spec :: pydict
  pks_cache :: "PksCache option"
  is_ovdc_present_in_request :: pyval
  session :: pydict

type_synonym 'a result = "(exn + 'a) \<times> event list"

section \<open>Resolution of the broker from the request\<close>

definition get_broker_based_on_vdc :: "world \<Rightarrow> BrokerManager \<Rightarrow> event list \<Rightarrow> broker result" where
  "get_broker_based_on_vdc w self tr =
     (let ovdc_name = py_or (dict_get (req_spec self) ''vdc'') (dict_get (req_qparams self) ''vdc'');
          org_name = py_or (py_or (dict_get (req_spec self) ''org'')
                                  (dict_get (req_qparams self) ''org''))
                           (dict_get (session self) ''org'');
          tr1 = tr @ [EvLog (LogOrgVdc org_name ovdc_name)]
      in if truthy ovdc_name \<and> truthy org_name
         then
           (let kw = [(''ovdc_name'', AVal ovdc_name), (''org_name'', AVal org_name),
                      (''credentials_required'', ABool True),
                      (''nsxt_info_required'', ABool True)];
                r = get_ovdc_container_provider_metadata w kw;
                tr2 = tr1 @ [EvGetMetadata kw r]
            in case r of
                 Inl e \<Rightarrow> (Inl e, tr2)
               | Inr ctr_prov_ctx \<Rightarrow>
                   (let tr3 = tr2 @ [EvLog (LogOvdcMetadata ovdc_name org_name ctr_prov_ctx)]
                    in if dict_get ctr_prov_ctx CONTAINER_PROVIDER_KEY = CtrProvType_value PKS
                       then (Inr (PKSBroker ctr_prov_ctx), tr3)
                       else if dict_get ctr_prov_ctx CONTAINER_PROVIDER_KEY = CtrProvType_value VCD
                       then (Inr VcdBroker, tr3)
                       else (Inl (CseServerError (VdcNotEnabled ovdc_name)), tr3)))
         else (Inr VcdBroker, tr1))"

section \<open>Enumeration of the external-service accounts\<close>

text \<open>
  The loop over the virtual datacenters of the organization, with the dictionary
  \<^verbatim>\<open>pks_ctx_dict\<close> keyed by \<^verbatim>\<open>ctr_prov_ctx['vc']\<close>.
\<close>

fun pks_ctx_dict_loop ::
  "world \<Rightarrow> pyval \<Rightarrow> pyval list \<Rightarrow> (pyval \<times> pydict) list \<Rightarrow> event list
     \<Rightarrow> ((pyval \<times> pydict) list) result" where
  "pks_ctx_dict_loop w org_name [] pks_ctx_dict tr = (Inr pks_ctx_dict, tr)"
| "pks_ctx_dict_loop w org_name (vdc_name # rest) pks_ctx_dict tr =
     (let kw = [(''ovdc_name'', AVal vdc_name), (''org_name'', AVal org_name),
                (''credentials_required'', ABool True)];
          r = get_ovdc_container_provider_metadata w kw;
          tr1 = tr @ [EvGetMetadata kw r]
      in case r of
           Inl e \<Rightarrow> (Inl e, tr1)
         | Inr ctr_prov_ctx \<Rightarrow>
             (case dict_index ctr_prov_ctx CONTAINER_PROVIDER_KEY of
                Inl e \<Rightarrow> (Inl e, tr1)
              | Inr p \<Rightarrow>
                  if p = CtrProvType_value PKS
                  then (case dict_index ctr_prov_ctx ''vc'' of
                          Inl e \<Rightarrow> (Inl e, tr1)
                        | Inr k \<Rightarrow>
                            pks_ctx_dict_loop w org_name rest
                              (AList.update k ctr_prov_ctx pks_ctx_dict) tr1)
                  else pks_ctx_dict_loop w org_name rest pks_ctx_dict tr1))"

fun vdc_names_of :: "pydict list \<Rightarrow> exn + pyval list" where
  \<comment> \<open>\<^verbatim>\<open>[vdc['name'] for vdc in vdcs]\<close>\<close>
  "vdc_names_of [] = Inr []"
| "vdc_names_of (vdc # vdcs) =
     (case dict_index vdc ''name'' of
        Inl e \<Rightarrow> Inl e
      | Inr n \<Rightarrow> (case vdc_names_of vdcs of Inl e \<Rightarrow> Inl e | Inr ns \<Rightarrow> Inr (n # ns)))"

definition create_pks_context_for_all_accounts_in_org ::
  "world \<Rightarrow> BrokerManager \<Rightarrow> event list \<Rightarrow> (pydict list) result" where
  "create_pks_context_for_all_accounts_in_org w self tr =
     (case pks_cache self of
        None \<Rightarrow> (Inr [], tr)
      | Some cache \<Rightarrow>
          if is_sysadmin w
          then (Inr (map (\<lambda>pks_account_info.
                            construct_pks_context w
                              [(''pks_account_info'', ARec pks_account_info),
                               (''credentials_required'', ABool True)])
                         (get_all_pks_account_info_in_system cache)), tr)
          else
            (let org_name = dict_get (session self) ''org''
             in if do_orgs_have_exclusive_pks_account cache
                then (Inr (map (\<lambda>pks_account_info.
                                  construct_pks_context w
                                    [(''pks_account_info'', ARec pks_account_info),
                                     (''credentials_required'', ABool True)])
                               (get_exclusive_pks_accounts_info_for_org cache org_name)), tr)
                else
                  (case vdc_names_of (list_vdcs (get_org w)) of
                     Inl e \<Rightarrow> (Inl e, tr)
                   | Inr vdc_names \<Rightarrow>
                       (case pks_ctx_dict_loop w org_name vdc_names [] tr of
                          (Inl e, tr1) \<Rightarrow> (Inl e, tr1)
                        | (Inr pks_ctx_dict, tr1) \<Rightarrow> (Inr (map snd pks_ctx_dict), tr1)))))"

section \<open>Search for a cluster whose owner is not known\<close>

text \<open>
  \<^verbatim>\<open>_find_cluster_in_org\<close> returns the pair of the cluster and the broker that found
  it, or the pair \<^verbatim>\<open>(None, None)\<close>, which is \<open>None\<close> here. The first function is its
  loop over the external-service accounts.
\<close>

fun find_cluster_in_pks ::
  "world \<Rightarrow> pyval \<Rightarrow> pydict list \<Rightarrow> event list \<Rightarrow> ((pydict \<times> broker) option) result" where
  "find_cluster_in_pks w cluster_name [] tr = (Inr None, tr)"
| "find_cluster_in_pks w cluster_name (pks_ctx # rest) tr =
     (let pksbroker = PKSBroker pks_ctx;
          r = broker_get_cluster_info w tr pksbroker cluster_name;
          tr1 = tr @ [EvGetClusterInfo pksbroker cluster_name r]
      in case r of
           Inr cluster \<Rightarrow> (Inr (Some (cluster, pksbroker)), tr1)
         | Inl err \<Rightarrow>
             (case dict_index pks_ctx ''host'' of
                Inl e \<Rightarrow> (Inl e, tr1)
              | Inr host \<Rightarrow>
                  find_cluster_in_pks w cluster_name rest
                    (tr1 @ [EvLog (LogGetClusterInfoFailedOnPks cluster_name host err)])))"

definition find_cluster_in_org ::
  "world \<Rightarrow> BrokerManager \<Rightarrow> pyval \<Rightarrow> event list \<Rightarrow> ((pydict \<times> broker) option) result" where
  "find_cluster_in_org w self cluster_name tr =
     (let vcd_broker = VcdBroker;
          r = broker_get_cluster_info w tr vcd_broker cluster_name;
          tr1 = tr @ [EvGetClusterInfo vcd_broker cluster_name r]
      in case r of
           Inr cluster \<Rightarrow> (Inr (Some (cluster, vcd_broker)), tr1)
         | Inl err \<Rightarrow>
             (let tr2 = tr1 @ [EvLog (LogGetClusterInfoFailedOnVcd cluster_name err)]
              in case create_pks_context_for_all_accounts_in_org w self tr2 of
                   (Inl e, tr3) \<Rightarrow> (Inl e, tr3)
                 | (Inr pks_ctx_list, tr3) \<Rightarrow>
                     find_cluster_in_pks w cluster_name pks_ctx_list tr3))"

section \<open>The operations on clusters\<close>

definition kwargs_of :: "pydict \<Rightarrow> kwargs" where
  \<comment> \<open>\<^verbatim>\<open>**cluster_spec\<close>\<close>
  "kwargs_of d = map (\<lambda>(k, v). (k, AVal v)) d"

definition get_cluster_info ::
  "world \<Rightarrow> BrokerManager \<Rightarrow> pydict \<Rightarrow> event list \<Rightarrow> (pydict \<times> broker) result" where
  "get_cluster_info w self cluster_spec tr =
     (case dict_index cluster_spec ''cluster_name'' of
        Inl e \<Rightarrow> (Inl e, tr)
      | Inr cluster_name \<Rightarrow>
          if truthy (is_ovdc_present_in_request self)
          then (case get_broker_based_on_vdc w self tr of
                  (Inl e, tr1) \<Rightarrow> (Inl e, tr1)
                | (Inr broker, tr1) \<Rightarrow>
                    (let r = broker_get_cluster_info w tr1 broker cluster_name;
                         tr2 = tr1 @ [EvGetClusterInfo broker cluster_name r]
                     in case r of
                          Inl e \<Rightarrow> (Inl e, tr2)
                        | Inr cluster \<Rightarrow> (Inr (cluster, broker), tr2)))
          else (case find_cluster_in_org w self cluster_name tr of
                  (Inl e, tr1) \<Rightarrow> (Inl e, tr1)
                | (Inr found, tr1) \<Rightarrow>
                    (case found of
                       Some (cluster, broker) \<Rightarrow>
                         if cluster \<noteq> [] then (Inr (cluster, broker), tr1)
                         else (Inl (ClusterNotFoundError cluster_name), tr1)
                     | None \<Rightarrow> (Inl (ClusterNotFoundError cluster_name), tr1))))"

definition get_cluster_config ::
  "world \<Rightarrow> BrokerManager \<Rightarrow> pydict \<Rightarrow> event list \<Rightarrow> pyval result" where
  "get_cluster_config w self cluster_spec tr =
     (case dict_index cluster_spec ''cluster_name'' of
        Inl e \<Rightarrow> (Inl e, tr)
      | Inr cluster_name \<Rightarrow>
          if truthy (is_ovdc_present_in_request self)
          then (case get_broker_based_on_vdc w self tr of
                  (Inl e, tr1) \<Rightarrow> (Inl e, tr1)
                | (Inr broker, tr1) \<Rightarrow>
                    (let r = broker_get_cluster_config w tr1 broker cluster_name
                     in (r, tr1 @ [EvGetClusterConfig broker cluster_name r])))
          else (case find_cluster_in_org w self cluster_name tr of
                  (Inl e, tr1) \<Rightarrow> (Inl e, tr1)
                | (Inr found, tr1) \<Rightarrow>
                    (case found of
                       Some (cluster, broker) \<Rightarrow>
                         if cluster \<noteq> []
                         then (case dict_index cluster ''name'' of
                                 Inl e \<Rightarrow> (Inl e, tr1)
                               | Inr n \<Rightarrow>
                                   (let r = broker_get_cluster_config w tr1 broker n
                                    in (r, tr1 @ [EvGetClusterConfig broker n r])))
                         else (Inl (ClusterNotFoundError cluster_name), tr1)
                     | None \<Rightarrow> (Inl (ClusterNotFoundError cluster_name), tr1))))"

definition common_cluster_properties :: "string list" where
  "common_cluster_properties = [''name'', ''vdc'', ''status'']"

definition vcd_cluster_of :: "pydict \<Rightarrow> pydict" where
  \<comment> \<open>the body of the loop over the clusters of the native-compute broker\<close>
  "vcd_cluster_of cluster =
     AList.update CONTAINER_PROVIDER_KEY (CtrProvType_value VCD)
       (dict_comprehension cluster PNone common_cluster_properties)"

fun pks_clusters_of :: "broker \<Rightarrow> pydict list \<Rightarrow> exn + pydict list" where
  \<comment> \<open>the loop over the clusters of one external-service broker\<close>
  "pks_clusters_of pks_broker [] = Inr []"
| "pks_clusters_of pks_broker (cluster # rest) =
     (case get_truncated_cluster_info cluster pks_broker common_cluster_properties of
        Inl e \<Rightarrow> Inl e
      | Inr pks_cluster \<Rightarrow>
          (case pks_clusters_of pks_broker rest of
             Inl e \<Rightarrow> Inl e
           | Inr ps \<Rightarrow>
               Inr (AList.update CONTAINER_PROVIDER_KEY (CtrProvType_value PKS) pks_cluster # ps)))"

fun list_clusters_in_pks ::
  "world \<Rightarrow> pydict list \<Rightarrow> pydict list \<Rightarrow> event list \<Rightarrow> (pydict list) result" where
  \<comment> \<open>the loop over the external-service accounts, \<open>pks_clusters\<close> being the list built so far\<close>
  "list_clusters_in_pks w [] pks_clusters tr = (Inr pks_clusters, tr)"
| "list_clusters_in_pks w (pks_ctx # rest) pks_clusters tr =
     (let pks_broker = PKSBroker pks_ctx;
          r = broker_list_clusters w tr pks_broker;
          tr1 = tr @ [EvListClusters pks_broker r]
      in case r of
           Inl e \<Rightarrow> (Inl e, tr1)
         | Inr clusters \<Rightarrow>
             (case pks_clusters_of pks_broker clusters of
                Inl e \<Rightarrow> (Inl e, tr1)
              | Inr ps \<Rightarrow> list_clusters_in_pks w rest (pks_clusters @ ps) tr1))"

definition list_clusters :: "world \<Rightarrow> BrokerManager \<Rightarrow> event list \<Rightarrow> (pydict list) result" where
  "list_clusters w self tr =
     (if truthy (is_ovdc_present_in_request self)
      then (case get_broker_based_on_vdc w self tr of
              (Inl e, tr1) \<Rightarrow> (Inl e, tr1)
            | (Inr broker, tr1) \<Rightarrow>
                (let r = broker_list_clusters w tr1 broker
                 in (r, tr1 @ [EvListClusters broker r])))
      else
        (let vcd_broker = VcdBroker;
             r = broker_list_clusters w tr vcd_broker;
             tr1 = tr @ [EvListClusters vcd_broker r]
         in case r of
              Inl e \<Rightarrow> (Inl e, tr1)
            | Inr clusters \<Rightarrow>
                (let vcd_clusters = map vcd_cluster_of clusters
                 in case create_pks_context_for_all_accounts_in_org w self tr1 of
                      (Inl e, tr2) \<Rightarrow> (Inl e, tr2)
                    | (Inr pks_ctx_list, tr2) \<Rightarrow>
                        (case list_clusters_in_pks w pks_ctx_list [] tr2 of
                           (Inl e, tr3) \<Rightarrow> (Inl e, tr3)
                         | (Inr pks_clusters, tr3) \<Rightarrow> (Inr (vcd_clusters @ pks_clusters), tr3)))))"

definition resize_cluster :: "world \<Rightarrow> BrokerManager \<Rightarrow> pydict \<Rightarrow> event list \<Rightarrow> pyval result" where
  "resize_cluster w self cluster_spec tr =
     (case get_cluster_info w self cluster_spec tr of
        (Inl e, tr1) \<Rightarrow> (Inl e, tr1)
      | (Inr (cluster, broker), tr1) \<Rightarrow>
          (let kw = (''curr_cluster_info'', ARec cluster) # kwargs_of cluster_spec;
               r = broker_resize_cluster w tr1 broker kw
           in (r, tr1 @ [EvResizeCluster broker kw r])))"

definition delete_cluster :: "world \<Rightarrow> BrokerManager \<Rightarrow> pydict \<Rightarrow> event list \<Rightarrow> pyval result" where
  "delete_cluster w self cluster_spec tr =
     (case dict_index cluster_spec ''cluster_name'' of
        Inl e \<Rightarrow> (Inl e, tr)
      | Inr cluster_name \<Rightarrow>
          (case get_cluster_info w self cluster_spec tr of
             (Inl e, tr1) \<Rightarrow> (Inl e, tr1)
           | (Inr (_, broker), tr1) \<Rightarrow>
               (let kw = [(''cluster_name'', AVal cluster_name)];
                    r = broker_delete_cluster w tr1 broker kw
                in (r, tr1 @ [EvDeleteCluster broker kw r]))))"

definition create_cluster :: "world \<Rightarrow> BrokerManager \<Rightarrow> pydict \<Rightarrow> event list \<Rightarrow> pyval result" where
  "create_cluster w self cluster_spec tr =
     (case dict_index cluster_spec ''cluster_name'' of
        Inl e \<Rightarrow> (Inl e, tr)
      | Inr cluster_name \<Rightarrow>
          (case find_cluster_in_org w self cluster_name tr of
             (Inl e, tr1) \<Rightarrow> (Inl e, tr1)
           | (Inr found, tr1) \<Rightarrow>
               if (case found of None \<Rightarrow> True | Some (cluster, _) \<Rightarrow> cluster = [])
               then (case get_broker_based_on_vdc w self tr1 of
                       (Inl e, tr2) \<Rightarrow> (Inl e, tr2)
                     | (Inr broker, tr2) \<Rightarrow>
                         (let kw = kwargs_of cluster_spec;
                              r = broker_create_cluster w tr2 broker kw
                          in (r, tr2 @ [EvCreateCluster broker kw r])))
               else (Inl (CseServerError (ClusterAlreadyFound cluster_name)), tr1)))"

section \<open>Enabling a virtual datacenter\<close>

text \<open>Formatting a value inside an f-string: \<^verbatim>\<open>str(v)\<close>.\<close>

function str_of_nat :: "nat \<Rightarrow> string" where
  "str_of_nat n =
     (if n < 10 then [char_of (48 + n)]
      else str_of_nat (n div 10) @ [char_of (48 + n mod 10)])"
  by pat_completeness auto
termination
  by (relation "measure id") auto

declare str_of_nat.simps [simp del]

fun py_str :: "pyval \<Rightarrow> string" where
  "py_str PNone = ''None''"
| "py_str (PInt i) = (if i < 0 then CHR ''-'' # str_of_nat (nat (- i)) else str_of_nat (nat i))"
| "py_str (PStr s) = s"

definition HTTPStatus_CONFLICT_value :: pyval where
  "HTTPStatus_CONFLICT_value = PInt 409"

definition get_ovdc_params ::
  "world \<Rightarrow> BrokerManager \<Rightarrow> exn + (pydict option \<times> VDC)" where
  "get_ovdc_params w self =
     (let ovdc_id = dict_get (req_spec self) ''ovdc_id'';
          org_name = dict_get (req_spec self) ''org_name''
      in case dict_index (req_spec self) ''pks_plans'' of
           Inl e \<Rightarrow> Inl e
         | Inr pks_plans \<Rightarrow>
       (case get_ovdc w ovdc_id of
           Inl e \<Rightarrow> Inl e
         | Inr ovdc \<Rightarrow>
       (case get_pvdc_id w ovdc of
           Inl e \<Rightarrow> Inl e
         | Inr pvdc_id \<Rightarrow>
       (case dict_index (req_spec self) CONTAINER_PROVIDER_KEY of
           Inl e \<Rightarrow> Inl e
         | Inr p \<Rightarrow>
             if p = CtrProvType_value PKS
             then
               (case pks_cache self of
                  None \<Rightarrow> Inl (CseServerError PksConfigMissing)
                | Some cache \<Rightarrow>
               (case get_pvdc_info cache pvdc_id of
                  Inl e \<Rightarrow> Inl e
                | Inr pvdc_info \<Rightarrow>
               (case get_pks_account_info cache org_name (dict_get pvdc_info ''vc'') of
                  Inl e \<Rightarrow> Inl e
                | Inr pks_account_info \<Rightarrow>
               (case get_nsxt_info cache (dict_get pvdc_info ''vc'') of
                  Inl e \<Rightarrow> Inl e
                | Inr nsxt_info \<Rightarrow>
               (case get_compute_profile_name w ovdc_id (dict_get (resource ovdc) ''name'') of
                  Inl e \<Rightarrow> Inl e
                | Inr pks_compute_profile_name \<Rightarrow>
                    Inr (Some (construct_pks_context w
                                 [(''pks_account_info'', ARec pks_account_info),
                                  (''pvdc_info'', ARec pvdc_info),
                                  (''nsxt_info'', ARec nsxt_info),
                                  (''pks_compute_profile_name'', AVal pks_compute_profile_name),
                                  (''pks_plans'', AVal pks_plans),
                                  (''credentials_required'', ABool True)]),
                         ovdc))))))
             else Inr (None, ovdc)))))"

definition PksComputeProfileParams_to_dict ::
  "pyval \<Rightarrow> pyval \<Rightarrow> pyval \<Rightarrow> pyval \<Rightarrow> pyval \<Rightarrow> pyval \<Rightarrow> pyval \<Rightarrow> kwargs" where
  "PksComputeProfileParams_to_dict cp_name az_name description cpi datacenter_name
       cluster_name ovdc_rp_name =
     [(''cp_name'', AVal cp_name), (''az_name'', AVal az_name),
      (''description'', AVal description), (''cpi'', AVal cpi),
      (''datacenter_name'', AVal datacenter_name), (''cluster_name'', AVal cluster_name),
      (''ovdc_rp_name'', AVal ovdc_rp_name)]"

definition create_pks_compute_profile ::
  "world \<Rightarrow> BrokerManager \<Rightarrow> pydict option \<Rightarrow> event list \<Rightarrow> unit result" where
  "create_pks_compute_profile w self pks_ctx_opt tr =
     (let ovdc_id = dict_get (req_spec self) ''ovdc_id'';
          org_name = dict_get (req_spec self) ''org_name'';
          ovdc_name = dict_get (req_spec self) ''ovdc_name''
      in case get_compute_profile_name w ovdc_id ovdc_name of
           Inl e \<Rightarrow> (Inl e, tr)
         | Inr pks_compute_profile_name \<Rightarrow>
             (let pks_compute_profile_description =
                    PStr (py_str org_name @ ''--'' @ py_str ovdc_name @ ''--'' @ py_str ovdc_id);
                  pks_az_name = PStr (''az-'' @ py_str ovdc_name);
                  ovdc_rp_name = PStr (py_str ovdc_name @ '' ('' @ py_str ovdc_id @ '')'')
              in case pks_ctx_opt of
                   None \<Rightarrow> (Inl AttributeError, tr)
                 | Some pks_ctx \<Rightarrow>
                     (let compute_profile_params =
                            PksComputeProfileParams_to_dict
                              pks_compute_profile_name pks_az_name
                              pks_compute_profile_description
                              (dict_get pks_ctx ''cpi'')
                              (dict_get pks_ctx ''datacenter'')
                              (dict_get pks_ctx ''cluster'')
                              ovdc_rp_name;
                          tr1 = tr @ [EvLog (LogCreatingComputeProfile pks_compute_profile_name)];
                          pksbroker = PKSBroker pks_ctx;
                          r = broker_create_compute_profile w tr1 pksbroker compute_profile_params;
                          tr2 = tr1 @ [EvCreateComputeProfile pksbroker compute_profile_params r]
                      in case r of
                           Inr u \<Rightarrow> (Inr (), tr2)
                         | Inl ex \<Rightarrow>
                             (case ex of
                                PksServerError status \<Rightarrow>
                                  if status = HTTPStatus_CONFLICT_value
                                  then (Inr (),
                                        tr2 @ [EvLog (LogComputeProfileExists
                                                        pks_compute_profile_name ex)])
                                  else (Inl ex, tr2)
                              | _ \<Rightarrow> (Inl ex, tr2)))))"

section \<open>Listing the virtual datacenters\<close>

fun list_ovdcs_of_org ::
  "world \<Rightarrow> Org \<Rightarrow> pydict list \<Rightarrow> pydict list \<Rightarrow> event list \<Rightarrow> (pydict list) result" where
  "list_ovdcs_of_org w org [] ovdc_list tr = (Inr ovdc_list, tr)"
| "list_ovdcs_of_org w org (vdc # rest) ovdc_list tr =
     (case dict_index vdc ''name'' of
        Inl e \<Rightarrow> (Inl e, tr)
      | Inr n \<Rightarrow>
          (let kw = [(''ovdc_name'', AVal n), (''org_name'', AVal (get_name org)),
                     (''credentials_required'', ABool False)];
               r = get_ovdc_container_provider_metadata w kw;
               tr1 = tr @ [EvGetMetadata kw r]
           in case r of
                Inl e \<Rightarrow> (Inl e, tr1)
              | Inr ctr_prov_ctx \<Rightarrow>
                  (case dict_index ctr_prov_ctx CONTAINER_PROVIDER_KEY of
                     Inl e \<Rightarrow> (Inl e, tr1)
                   | Inr p \<Rightarrow>
                       list_ovdcs_of_org w org rest
                         (ovdc_list @ [[(''org'', get_name org), (''name'', n),
                                        (CONTAINER_PROVIDER_KEY, p)]]) tr1)))"

fun list_ovdcs_of_orgs ::
  "world \<Rightarrow> Org list \<Rightarrow> pydict list \<Rightarrow> event list \<Rightarrow> (pydict list) result" where
  "list_ovdcs_of_orgs w [] ovdc_list tr = (Inr ovdc_list, tr)"
| "list_ovdcs_of_orgs w (org # rest) ovdc_list tr =
     (case list_ovdcs_of_org w org (list_vdcs org) ovdc_list tr of
        (Inl e, tr1) \<Rightarrow> (Inl e, tr1)
      | (Inr ovdc_list1, tr1) \<Rightarrow> list_ovdcs_of_orgs w rest ovdc_list1 tr1)"

definition list_ovdcs :: "world \<Rightarrow> BrokerManager \<Rightarrow> event list \<Rightarrow> (pydict list) result" where
  "list_ovdcs w self tr =
     (let org_resource_list =
            (if is_sysadmin w then get_org_list w else list_of_org_resource w (get_org w))
      in list_ovdcs_of_orgs w org_resource_list [] tr)"

section \<open>The dispatcher\<close>

datatype Operation =
    CREATE_CLUSTER
  | DELETE_CLUSTER
  | GET_CLUSTER
  | LIST_CLUSTERS
  | RESIZE_CLUSTER
  | LIST_OVDCS
  | ENABLE_OVDC
  | INFO_OVDC
  | GET_CLUSTER_CONFIG

text \<open>
  \<open>invoke\<close> is the body of the method: the decorator \<^verbatim>\<open>exception_handler\<close>, which turns
  an exception into an error response, belongs to another module, and an exception is
  returned here as it is raised. \<^verbatim>\<open>list(self.vcd_client.get_org())\<close> is the field
  \<open>list_of_org_resource\<close> of the world, and the attribute \<^verbatim>\<open>vc\<close> of a
  \<^verbatim>\<open>pvdc_info\<close> is read with \<open>dict_get\<close>.
\<close>

datatype status = OK | ACCEPTED

datatype body_val = BVal pyval | BDict pydict | BList "pydict list"

record response =
  body :: body_val
  status_code :: status

definition respond :: "status \<Rightarrow> ('a \<Rightarrow> body_val) \<Rightarrow> 'a result \<Rightarrow> response result" where
  \<comment> \<open>\<^verbatim>\<open>result['body'] = ...; result['status_code'] = ...\<close>, unless the call raised\<close>
  "respond st f r =
     (case r of
        (Inl e, tr) \<Rightarrow> (Inl e, tr)
      | (Inr x, tr) \<Rightarrow> (Inr \<lparr>body = f x, status_code = st\<rparr>, tr))"

definition enable_ovdc :: "world \<Rightarrow> BrokerManager \<Rightarrow> event list \<Rightarrow> response result" where
  \<comment> \<open>the branch of \<^verbatim>\<open>invoke\<close> for \<^verbatim>\<open>Operation.ENABLE_OVDC\<close>\<close>
  "enable_ovdc w self tr =
     (case get_ovdc_params w self of
        Inl e \<Rightarrow> (Inl e, tr)
      | Inr (pks_ctx, ovdc) \<Rightarrow>
          (case dict_index (req_spec self) CONTAINER_PROVIDER_KEY of
             Inl e \<Rightarrow> (Inl e, tr)
           | Inr p \<Rightarrow>
               (case (if p = CtrProvType_value PKS
                      then create_pks_compute_profile w self pks_ctx tr
                      else (Inr (), tr)) of
                  (Inl e, tr1) \<Rightarrow> (Inl e, tr1)
                | (Inr u, tr1) \<Rightarrow>
                    (let kw = [(''container_prov_data'', arg_of_option pks_ctx),
                               (''container_provider'', AVal p)];
                         r = set_ovdc_container_provider_metadata w tr1 ovdc kw;
                         tr2 = tr1 @ [EvSetMetadata ovdc kw r]
                     in case r of
                          Inl e \<Rightarrow> (Inl e, tr2)
                        | Inr task \<Rightarrow>
                            (Inr \<lparr>body = BDict [(''task_href'', dict_get task ''href'')],
                                  status_code = ACCEPTED\<rparr>, tr2)))))"

definition invoke :: "world \<Rightarrow> BrokerManager \<Rightarrow> Operation \<Rightarrow> event list \<Rightarrow> response result" where
  "invoke w self0 op tr =
     (let self = self0\<lparr>is_ovdc_present_in_request :=
                         py_or (dict_get (req_spec self0) ''vdc'')
                               (dict_get (req_qparams self0) ''vdc'')\<rparr>
      in case op of
           INFO_OVDC \<Rightarrow>
             (let kw = [(''ovdc_id'', AVal (dict_get (req_spec self) ''ovdc_id''))];
                  r = get_ovdc_container_provider_metadata w kw
              in respond OK BDict (r, tr @ [EvGetMetadata kw r]))
         | ENABLE_OVDC \<Rightarrow> enable_ovdc w self tr
         | GET_CLUSTER \<Rightarrow>
             respond OK (\<lambda>(cluster, broker). BDict cluster)
               (get_cluster_info w self
                  [(''cluster_name'', dict_get (req_spec self) ''cluster_name'')] tr)
         | LIST_CLUSTERS \<Rightarrow> respond OK BList (list_clusters w self tr)
         | DELETE_CLUSTER \<Rightarrow>
             respond ACCEPTED BVal
               (delete_cluster w self
                  [(''cluster_name'', dict_get (req_spec self) ''cluster_name'')] tr)
         | RESIZE_CLUSTER \<Rightarrow>
             respond ACCEPTED BVal
               (resize_cluster w self
                  [(''cluster_name'', dict_get (req_spec self) ''cluster_name''),
                   (''node_count'', dict_get (req_spec self) ''node_count'')] tr)
         | GET_CLUSTER_CONFIG \<Rightarrow>
             respond OK BVal
               (get_cluster_config w self
                  [(''cluster_name'', dict_get (req_spec self) ''cluster_name'')] tr)
         | CREATE_CLUSTER \<Rightarrow>
             respond ACCEPTED BVal
               (create_cluster w self
                  [(''cluster_name'', dict_get (req_spec self) ''cluster_name''),
                   (''vdc_name'', dict_get (req_spec self) ''vdc''),
                   (''node_count'', dict_get (req_spec self) ''node_count''),
                   (''storage_profile'', dict_get (req_spec self) ''storage_profile''),
                   (''network_name'', dict_get (req_spec self) ''network''),
                   (''template'', dict_get (req_spec self) ''template''),
                   (''pks_plan'', dict_get (req_spec self) ''pks_plan''),
                   (''pks_ext_host'', dict_get (req_spec self) ''pks_ext_host'')] tr)
         | LIST_OVDCS \<Rightarrow> respond OK BList (list_ovdcs w self tr))"

section \<open>Observations on a trace\<close>

fun probe_of :: "event \<Rightarrow> (broker \<times> (exn + pydict)) list" where
  "probe_of (EvGetClusterInfo b n r) = [(b, r)]"
| "probe_of _ = []"

definition probes :: "event list \<Rightarrow> (broker \<times> (exn + pydict)) list" where
  \<comment> \<open>the calls of \<^verbatim>\<open>get_cluster_info\<close>, each with its broker and what it answered\<close>
  "probes tr = concat (map probe_of tr)"

fun broker_call_of :: "event \<Rightarrow> broker list" where
  "broker_call_of (EvGetClusterInfo b n r) = [b]"
| "broker_call_of (EvGetClusterConfig b n r) = [b]"
| "broker_call_of (EvListClusters b r) = [b]"
| "broker_call_of (EvCreateCluster b kw r) = [b]"
| "broker_call_of (EvResizeCluster b kw r) = [b]"
| "broker_call_of (EvDeleteCluster b kw r) = [b]"
| "broker_call_of (EvCreateComputeProfile b kw r) = [b]"
| "broker_call_of (EvGetMetadata kw r) = []"
| "broker_call_of (EvSetMetadata ovdc kw r) = []"
| "broker_call_of (EvLog m) = []"

definition broker_calls :: "event list \<Rightarrow> broker list" where
  \<comment> \<open>the broker of every call to a broker, in order\<close>
  "broker_calls tr = concat (map broker_call_of tr)"

fun lookup_of :: "event \<Rightarrow> kwargs list" where
  "lookup_of (EvGetMetadata kw r) = [kw]"
| "lookup_of _ = []"

definition lookups :: "event list \<Rightarrow> kwargs list" where
  \<comment> \<open>the lookups of ownership metadata, in order\<close>
  "lookups tr = concat (map lookup_of tr)"

fun create_of :: "event \<Rightarrow> (broker \<times> kwargs) list" where
  "create_of (EvCreateCluster b kw r) = [(b, kw)]"
| "create_of _ = []"

definition creates :: "event list \<Rightarrow> (broker \<times> kwargs) list" where
  \<comment> \<open>the calls of \<^verbatim>\<open>create_cluster\<close>\<close>
  "creates tr = concat (map create_of tr)"

fun config_call_of :: "event \<Rightarrow> broker list" where
  "config_call_of (EvGetClusterConfig b n r) = [b]"
| "config_call_of _ = []"

definition config_calls :: "event list \<Rightarrow> broker list" where
  \<comment> \<open>the calls of \<^verbatim>\<open>get_cluster_config\<close>\<close>
  "config_calls tr = concat (map config_call_of tr)"

fun set_metadata_of :: "event \<Rightarrow> kwargs list" where
  "set_metadata_of (EvSetMetadata ovdc kw r) = [kw]"
| "set_metadata_of _ = []"

definition set_metadata_calls :: "event list \<Rightarrow> kwargs list" where
  \<comment> \<open>the updates of ownership metadata\<close>
  "set_metadata_calls tr = concat (map set_metadata_of tr)"

fun listing_of :: "event \<Rightarrow> (broker \<times> (exn + pydict list)) list" where
  "listing_of (EvListClusters b r) = [(b, r)]"
| "listing_of _ = []"

definition listings :: "event list \<Rightarrow> (broker \<times> (exn + pydict list)) list" where
  \<comment> \<open>the calls of \<^verbatim>\<open>list_clusters\<close>, each with its broker and what it answered\<close>
  "listings tr = concat (map listing_of tr)"

definition missed :: "exn + pydict \<Rightarrow> bool" where
  \<comment> \<open>a probe misses when it raises or when the record it returns is empty, which the
      dispatcher's test \<^verbatim>\<open>if cluster\<close> takes for no cluster\<close>
  "missed r = (case r of Inl e \<Rightarrow> True | Inr cluster \<Rightarrow> cluster = [])"

fun is_metadata_lookup :: "event \<Rightarrow> bool" where
  "is_metadata_lookup (EvGetMetadata kw r) = True"
| "is_metadata_lookup _ = False"

fun is_resolution_event :: "event \<Rightarrow> bool" where
  \<comment> \<open>what the resolution of a broker from the request may record\<close>
  "is_resolution_event (EvGetMetadata kw r) = True"
| "is_resolution_event (EvLog m) = True"
| "is_resolution_event _ = False"

fun is_search_event :: "event \<Rightarrow> bool" where
  \<comment> \<open>what the search for a cluster may record\<close>
  "is_search_event (EvGetClusterInfo b n r) = True"
| "is_search_event (EvGetMetadata kw r) = True"
| "is_search_event (EvLog m) = True"
| "is_search_event _ = False"



text \<open>
  A trace is faithful on its probes when every call of \<^verbatim>\<open>get_cluster_info\<close> in it asks
  for the same cluster name and holds the answer that the broker gave after the calls
  recorded before it.
\<close>

fun probes_answered :: "world \<Rightarrow> pyval \<Rightarrow> event list \<Rightarrow> event list \<Rightarrow> bool" where
  \<comment> \<open>every probe recorded after \<open>tr\<close> asks for the cluster \<open>n\<close> and holds what the broker
      answered at that moment\<close>
  "probes_answered w n tr [] = True"
| "probes_answered w n tr (EvGetClusterInfo b n' r # rest) =
     (n' = n \<and> r = broker_get_cluster_info w tr b n
      \<and> probes_answered w n (tr @ [EvGetClusterInfo b n' r]) rest)"
| "probes_answered w n tr (e # rest) = probes_answered w n (tr @ [e]) rest"

text \<open>
  The methods of a broker that the dispatcher calls, and the calls of a trace by method.
\<close>

datatype broker_method =
    GetClusterInfo
  | GetClusterConfig
  | ListClusters
  | CreateCluster
  | ResizeCluster
  | DeleteCluster
  | CreateComputeProfile

fun method_call_of :: "event \<Rightarrow> (broker_method \<times> broker) list" where
  "method_call_of (EvGetClusterInfo b n r) = [(GetClusterInfo, b)]"
| "method_call_of (EvGetClusterConfig b n r) = [(GetClusterConfig, b)]"
| "method_call_of (EvListClusters b r) = [(ListClusters, b)]"
| "method_call_of (EvCreateCluster b kw r) = [(CreateCluster, b)]"
| "method_call_of (EvResizeCluster b kw r) = [(ResizeCluster, b)]"
| "method_call_of (EvDeleteCluster b kw r) = [(DeleteCluster, b)]"
| "method_call_of (EvCreateComputeProfile b kw r) = [(CreateComputeProfile, b)]"
| "method_call_of (EvGetMetadata kw r) = []"
| "method_call_of (EvSetMetadata ovdc kw r) = []"
| "method_call_of (EvLog m) = []"

definition method_calls :: "event list \<Rightarrow> (broker_method \<times> broker) list" where
  \<comment> \<open>the calls to brokers, each with the method called, in order\<close>
  "method_calls tr = concat (map method_call_of tr)"


definition enum_kw :: "pyval \<Rightarrow> pyval \<Rightarrow> kwargs" where
  \<comment> \<open>the arguments of the lookup that the enumeration of accounts makes for one vdc\<close>
  "enum_kw org_name vdc_name =
     [(''ovdc_name'', AVal vdc_name), (''org_name'', AVal org_name),
      (''credentials_required'', ABool True)]"

definition resolution_kwargs :: "pyval \<Rightarrow> pyval \<Rightarrow> kwargs" where
  \<comment> \<open>the arguments of the one lookup that resolves the broker of a request\<close>
  "resolution_kwargs ovdc_name org_name =
     [(''ovdc_name'', AVal ovdc_name), (''org_name'', AVal org_name),
      (''credentials_required'', ABool True), (''nsxt_info_required'', ABool True)]"

section \<open>Example data\<close>

text \<open>
  Organization Acme has four virtual datacenters: \<open>vdc1\<close> is owned by the native-compute
  provider, \<open>vdc2\<close> and \<open>vdc3\<close> by the external service behind the compute endpoint
  \<open>vc1\<close>, \<open>vdc4\<close> by the external service behind \<open>vc2\<close>. Cluster \<open>web\<close> lives on the
  native-compute provider, cluster \<open>app\<close> on the account of \<open>vc2\<close>; the account of \<open>vc1\<close>
  does not answer.
\<close>

definition pks_ctx_vc1 :: pydict where
  "pks_ctx_vc1 = [(''container_provider'', PStr ''pks''), (''vc'', PStr ''vc1''),
                  (''host'', PStr ''pks1.example'')]"

definition pks_ctx_vc2 :: pydict where
  "pks_ctx_vc2 = [(''container_provider'', PStr ''pks''), (''vc'', PStr ''vc2''),
                  (''host'', PStr ''pks2.example'')]"

definition cluster_web :: pydict where
  "cluster_web = [(''name'', PStr ''web''), (''vdc'', PStr ''vdc1''),
                  (''status'', PStr ''POWERED_ON''), (''nodes'', PInt 3)]"

definition cluster_app :: pydict where
  "cluster_app = [(''name'', PStr ''app''), (''status'', PStr ''Succeeded''),
                  (''last-action'', PStr ''CREATE''),
                  (''compute-profile-name'', PStr ''cp--f3272127--vdc4'')]"

definition metadata_example :: "kwargs \<Rightarrow> exn + pydict" where
  "metadata_example kw =
     (case map_of kw ''ovdc_name'' of
        Some (AVal (PStr n)) \<Rightarrow>
          if n = ''vdc1'' then Inr [(''container_provider'', PStr ''vcd'')]
          else if n = ''vdc2'' \<or> n = ''vdc3'' then Inr pks_ctx_vc1
          else if n = ''vdc4'' then Inr pks_ctx_vc2
          else Inr [(''container_provider'', PStr ''none'')]
      | _ \<Rightarrow> Inr [(''container_provider'', PStr ''none'')])"

definition get_cluster_info_example :: "broker \<Rightarrow> pyval \<Rightarrow> exn + pydict" where
  "get_cluster_info_example b n =
     (case b of
        VcdBroker \<Rightarrow> if n = PStr ''web'' then Inr cluster_web else Inl (ClusterNotFoundError n)
      | PKSBroker ctx \<Rightarrow>
          if dict_get ctx ''vc'' = PStr ''vc1'' then Inl (OtherException ''timeout'')
          else if n = PStr ''app'' then Inr cluster_app
          else Inl (ClusterNotFoundError n))"

definition list_clusters_example :: "broker \<Rightarrow> exn + pydict list" where
  "list_clusters_example b =
     (case b of
        VcdBroker \<Rightarrow> Inr [cluster_web]
      | PKSBroker ctx \<Rightarrow> if dict_get ctx ''vc'' = PStr ''vc2'' then Inr [cluster_app] else Inr [])"

definition org_example :: Org where
  "org_example =
     \<lparr>get_name = PStr ''Acme'',
      list_vdcs = [[(''name'', PStr ''vdc1'')], [(''name'', PStr ''vdc2'')],
                   [(''name'', PStr ''vdc3'')], [(''name'', PStr ''vdc4'')]]\<rparr>"

definition world_example :: world where
  "world_example =
     \<lparr>broker_get_cluster_info = (\<lambda>tr. get_cluster_info_example),
      broker_get_cluster_config = (\<lambda>tr b n. Inr (PStr ''kubeconfig'')),
      broker_list_clusters = (\<lambda>tr. list_clusters_example),
      broker_create_cluster = (\<lambda>tr b kw. Inr (PStr ''task-create'')),
      broker_resize_cluster = (\<lambda>tr b kw. Inr (PStr ''task-resize'')),
      broker_delete_cluster = (\<lambda>tr b kw. Inr (PStr ''task-delete'')),
      broker_create_compute_profile = (\<lambda>tr b kw. Inl (PksServerError (PInt 409))),
      get_ovdc_container_provider_metadata = metadata_example,
      set_ovdc_container_provider_metadata =
        (\<lambda>tr ovdc kw. Inr [(''href'', PStr ''https://vcd/task/1'')]),
      get_ovdc = (\<lambda>ovdc_id. Inr \<lparr>resource = [(''name'', PStr ''vdc2'')]\<rparr>),
      get_pvdc_id = (\<lambda>ovdc. Inr (PStr ''pvdc1'')),
      get_compute_profile_name =
        (\<lambda>ovdc_id ovdc_name. Inr (PStr (''cp--'' @ py_str ovdc_id @ ''--'' @ py_str ovdc_name))),
      construct_pks_context =
        (\<lambda>kw. case map_of kw ''pks_account_info'' of Some (ARec d) \<Rightarrow> d | _ \<Rightarrow> []),
      is_sysadmin = False,
      get_org_list = [org_example],
      get_org = org_example,
      list_of_org_resource = (\<lambda>org. [org])\<rparr>"

definition pks_cache_example :: PksCache where
  "pks_cache_example =
     \<lparr>get_all_pks_account_info_in_system = [pks_ctx_vc1, pks_ctx_vc2],
      do_orgs_have_exclusive_pks_account = False,
      get_exclusive_pks_accounts_info_for_org = (\<lambda>org_name. []),
      get_pvdc_info = (\<lambda>pvdc_id. Inr [(''vc'', PStr ''vc1''), (''datacenter'', PStr ''dc1''),
                                      (''cluster'', PStr ''cl1''), (''cpi'', PStr ''cpi1'')]),
      get_pks_account_info = (\<lambda>org_name vc. Inr pks_ctx_vc1),
      get_nsxt_info = (\<lambda>vc. Inr [])\<rparr>"

definition manager_example :: "pydict \<Rightarrow> BrokerManager" where
  \<comment> \<open>a \<^verbatim>\<open>BrokerManager\<close> for a request with the given body, from a caller of Acme\<close>
  "manager_example spec =
     \<lparr>req_qparams = [], req_spec = spec, pks_cache = Some pks_cache_example,
      is_ovdc_present_in_request = PNone, session = [(''org'', PStr ''Acme'')]\<rparr>"


definition pks_cluster_example :: pydict where
  "pks_cluster_example =
     [(''name'', PStr ''c1''), (''status'', PStr ''Succeeded''), (''last-action'', PStr ''CREATE''),
      (''compute-profile-name'', PStr ''cp--f3272127-9b7f-4f90-8849-0ee70a28be56--vdc-PKS1''),
      (''uuid'', PStr ''1234'')]"

definition enable_spec_example :: pydict where
  \<comment> \<open>the body of a request that enables \<open>vdc2\<close> for the external service\<close>
  "enable_spec_example =
     [(''ovdc_id'', PStr ''id2''), (''org_name'', PStr ''Acme''), (''ovdc_name'', PStr ''vdc2''),
      (''pks_plans'', PStr ''plan1''), (''container_provider'', PStr ''pks'')]"

definition compute_profile_params_example :: kwargs where
  "compute_profile_params_example =
     [(''cp_name'', AVal (PStr ''cp--id2--vdc2'')), (''az_name'', AVal (PStr ''az-vdc2'')),
      (''description'', AVal (PStr ''Acme--vdc2--id2'')), (''cpi'', AVal PNone),
      (''datacenter_name'', AVal PNone), (''cluster_name'', AVal PNone),
      (''ovdc_rp_name'', AVal (PStr ''vdc2 (id2)''))]"

definition enable_trace_conflict :: "event list" where
  "enable_trace_conflict =
     [EvLog (LogCreatingComputeProfile (PStr ''cp--id2--vdc2'')),
      EvCreateComputeProfile (PKSBroker pks_ctx_vc1) compute_profile_params_example
        (Inl (PksServerError (PInt 409))),
      EvLog (LogComputeProfileExists (PStr ''cp--id2--vdc2'') (PksServerError (PInt 409))),
      EvSetMetadata \<lparr>resource = [(''name'', PStr ''vdc2'')]\<rparr>
        [(''container_prov_data'', ARec pks_ctx_vc1),
         (''container_provider'', AVal (PStr ''pks''))]
        (Inr [(''href'', PStr ''https://vcd/task/1'')])]"

definition enable_trace_failure :: "event list" where
  "enable_trace_failure =
     [EvLog (LogCreatingComputeProfile (PStr ''cp--id2--vdc2'')),
      EvCreateComputeProfile (PKSBroker pks_ctx_vc1) compute_profile_params_example
        (Inl (PksServerError (PInt 500)))]"

definition world_example_failing_profile :: world where
  \<comment> \<open>the example, with an external service that answers 500 to the creation of a
      compute profile\<close>
  "world_example_failing_profile =
     world_example\<lparr>broker_create_compute_profile :=
                     (\<lambda>tr b kw. Inl (PksServerError (PInt 500)))\<rparr>"

definition enumeration_kwargs :: "string \<Rightarrow> kwargs" where
  "enumeration_kwargs n =
     [(''ovdc_name'', AVal (PStr n)), (''org_name'', AVal (PStr ''Acme'')),
      (''credentials_required'', ABool True)]"

definition enumeration_trace_example :: "event list" where
  \<comment> \<open>the lookups made when the accounts of Acme are enumerated\<close>
  "enumeration_trace_example =
     [EvGetMetadata (enumeration_kwargs ''vdc1'') (Inr [(''container_provider'', PStr ''vcd'')]),
      EvGetMetadata (enumeration_kwargs ''vdc2'') (Inr pks_ctx_vc1),
      EvGetMetadata (enumeration_kwargs ''vdc3'') (Inr pks_ctx_vc1),
      EvGetMetadata (enumeration_kwargs ''vdc4'') (Inr pks_ctx_vc2)]"

definition search_trace_missing :: "pyval \<Rightarrow> event list" where
  \<comment> \<open>the search for a cluster that no provider of the example has\<close>
  "search_trace_missing n =
     [EvGetClusterInfo VcdBroker n (Inl (ClusterNotFoundError n)),
      EvLog (LogGetClusterInfoFailedOnVcd n (ClusterNotFoundError n))]
     @ enumeration_trace_example @
     [EvGetClusterInfo (PKSBroker pks_ctx_vc1) n (Inl (OtherException ''timeout'')),
      EvLog (LogGetClusterInfoFailedOnPks n (PStr ''pks1.example'') (OtherException ''timeout'')),
      EvGetClusterInfo (PKSBroker pks_ctx_vc2) n (Inl (ClusterNotFoundError n)),
      EvLog (LogGetClusterInfoFailedOnPks n (PStr ''pks2.example'') (ClusterNotFoundError n))]"

definition search_trace_app :: "event list" where
  \<comment> \<open>the search for the cluster \<open>app\<close>, found on the second account\<close>
  "search_trace_app =
     [EvGetClusterInfo VcdBroker (PStr ''app'') (Inl (ClusterNotFoundError (PStr ''app''))),
      EvLog (LogGetClusterInfoFailedOnVcd (PStr ''app'') (ClusterNotFoundError (PStr ''app'')))]
     @ enumeration_trace_example @
     [EvGetClusterInfo (PKSBroker pks_ctx_vc1) (PStr ''app'') (Inl (OtherException ''timeout'')),
      EvLog (LogGetClusterInfoFailedOnPks (PStr ''app'') (PStr ''pks1.example'')
               (OtherException ''timeout'')),
      EvGetClusterInfo (PKSBroker pks_ctx_vc2) (PStr ''app'') (Inr cluster_app)]"

definition create_kwargs_example :: "pyval \<Rightarrow> pyval \<Rightarrow> kwargs" where
  \<comment> \<open>the arguments of \<^verbatim>\<open>create_cluster\<close> for a request that gives a name and a vdc only\<close>
  "create_kwargs_example n v =
     [(''cluster_name'', AVal n), (''vdc_name'', AVal v), (''node_count'', AVal PNone),
      (''storage_profile'', AVal PNone), (''network_name'', AVal PNone),
      (''template'', AVal PNone), (''pks_plan'', AVal PNone), (''pks_ext_host'', AVal PNone)]"

definition create_spec_example :: "pyval \<Rightarrow> pyval \<Rightarrow> pydict" where
  \<comment> \<open>the parameters that \<open>invoke\<close> passes to \<^verbatim>\<open>_create_cluster\<close> for a request that gives
      a name and a vdc only\<close>
  "create_spec_example n v =
     [(''cluster_name'', n), (''vdc_name'', v), (''node_count'', PNone),
      (''storage_profile'', PNone), (''network_name'', PNone), (''template'', PNone),
      (''pks_plan'', PNone), (''pks_ext_host'', PNone)]"

definition resolution_trace_example :: "string \<Rightarrow> pydict \<Rightarrow> event list" where
  \<comment> \<open>the resolution of the broker for a request of Acme that names the vdc \<open>v\<close>\<close>
  "resolution_trace_example v ctr_prov_ctx =
     [EvLog (LogOrgVdc (PStr ''Acme'') (PStr v)),
      EvGetMetadata
        [(''ovdc_name'', AVal (PStr v)), (''org_name'', AVal (PStr ''Acme'')),
         (''credentials_required'', ABool True), (''nsxt_info_required'', ABool True)]
        (Inr ctr_prov_ctx),
      EvLog (LogOvdcMetadata (PStr v) (PStr ''Acme'') ctr_prov_ctx)]"

definition list_trace_example :: "event list" where
  \<comment> \<open>the listing of all clusters visible to a caller of Acme\<close>
  "list_trace_example =
     [EvListClusters VcdBroker (Inr [cluster_web])] @ enumeration_trace_example @
     [EvListClusters (PKSBroker pks_ctx_vc1) (Inr []),
      EvListClusters (PKSBroker pks_ctx_vc2) (Inr [cluster_app])]"

section \<open>The projection of an external-service cluster\<close>

lemma dict_comprehension_common:
  "dict_comprehension cluster d common_cluster_properties =
     [(''name'', dict_get_default cluster ''name'' d), (''vdc'', dict_get_default cluster ''vdc'' d),
      (''status'', dict_get_default cluster ''status'' d)]"
  by (simp add: dict_comprehension_def common_cluster_properties_def)

text \<open>
  Claim C6. Let \<open>la\<close> be the last-action string of an external-service cluster (empty
  when the cluster has none), \<open>st\<close> its status string and \<open>cpn\<close> the name of its compute
  profile (empty when it has none). The projection succeeds; its status field is the
  lower-cased \<open>la\<close>, one space and the lower-cased \<open>st\<close>, and its vdc field is the last
  segment of \<open>cpn\<close> split at \<^verbatim>\<open>--\<close>.
\<close>

theorem get_truncated_cluster_info_status_vdc:
  assumes "dict_get_default cluster ''last-action'' (PStr []) = PStr la"
      and "dict_get cluster ''status'' = PStr st"
      and "dict_get_default cluster ''compute-profile-name'' (PStr []) = PStr cpn"
  shows "get_truncated_cluster_info cluster pks_broker common_cluster_properties =
           Inr [(''name'', dict_get cluster ''name''),
                (''vdc'', PStr (last (str_split ''--'' cpn))),
                (''status'', PStr (str_lower la @ '' '' @ str_lower st))]"
proof -
  have empty: "last (str_split ''--'' []) = []"
    by (simp add: str_split_def)
  show ?thesis
    using assms empty
    by (simp add: get_truncated_cluster_info_def dict_comprehension_common dict_get_def
        dict_get_default_def py_lower_def py_split_last_def)
qed

theorem get_truncated_cluster_info_status_vdc_witness:
  "dict_get_default pks_cluster_example ''last-action'' (PStr []) = PStr ''CREATE''
   \<and> dict_get pks_cluster_example ''status'' = PStr ''Succeeded''
   \<and> dict_get_default pks_cluster_example ''compute-profile-name'' (PStr []) =
         PStr ''cp--f3272127-9b7f-4f90-8849-0ee70a28be56--vdc-PKS1''
   \<and> get_truncated_cluster_info pks_cluster_example (PKSBroker []) common_cluster_properties =
         Inr [(''name'', PStr ''c1''), (''vdc'', PStr ''vdc-PKS1''),
              (''status'', PStr ''create succeeded'')]"
proof -
  have 1: "dict_get_default pks_cluster_example ''last-action'' (PStr []) = PStr ''CREATE''"
    by (simp add: pks_cluster_example_def dict_get_default_def)
  have 2: "dict_get pks_cluster_example ''status'' = PStr ''Succeeded''"
    by (simp add: pks_cluster_example_def dict_get_def dict_get_default_def)
  have 3: "dict_get_default pks_cluster_example ''compute-profile-name'' (PStr []) =
             PStr ''cp--f3272127-9b7f-4f90-8849-0ee70a28be56--vdc-PKS1''"
    by (simp add: pks_cluster_example_def dict_get_default_def)
  have 4: "last (str_split ''--'' ''cp--f3272127-9b7f-4f90-8849-0ee70a28be56--vdc-PKS1'') =
             ''vdc-PKS1''"
    by (simp add: str_split_def)
  have 5: "str_lower ''CREATE'' @ '' '' @ str_lower ''Succeeded'' = ''create succeeded''"
    by code_simp
  have 6: "dict_get pks_cluster_example ''name'' = PStr ''c1''"
    by (simp add: pks_cluster_example_def dict_get_def dict_get_default_def)
  show ?thesis
    using get_truncated_cluster_info_status_vdc [OF 1 2 3, of "PKSBroker []"] 1 2 3 4 5 6
    by simp
qed

section \<open>Facts about the example data\<close>

lemma world_example_simps:
  "broker_get_cluster_info world_example = (\<lambda>tr. get_cluster_info_example)"
  "broker_get_cluster_config world_example = (\<lambda>tr b n. Inr (PStr ''kubeconfig''))"
  "broker_list_clusters world_example = (\<lambda>tr. list_clusters_example)"
  "broker_create_cluster world_example = (\<lambda>tr b kw. Inr (PStr ''task-create''))"
  "broker_resize_cluster world_example = (\<lambda>tr b kw. Inr (PStr ''task-resize''))"
  "broker_delete_cluster world_example = (\<lambda>tr b kw. Inr (PStr ''task-delete''))"
  "broker_create_compute_profile world_example = (\<lambda>tr b kw. Inl (PksServerError (PInt 409)))"
  "get_ovdc_container_provider_metadata world_example = metadata_example"
  "is_sysadmin world_example = False"
  "get_org world_example = org_example"
  by (simp_all add: world_example_def)

lemma cluster_web_nonempty: "cluster_web \<noteq> []"
  by (simp add: cluster_web_def)

lemma get_cluster_info_web:
  "get_cluster_info world_example (manager_example []) [(''cluster_name'', PStr ''web'')] [] =
     (Inr (cluster_web, VcdBroker), [EvGetClusterInfo VcdBroker (PStr ''web'') (Inr cluster_web)])"
  by (simp add: get_cluster_info_def dict_index_def manager_example_def find_cluster_in_org_def
      world_example_simps get_cluster_info_example_def cluster_web_nonempty)

section \<open>Resize and delete\<close>

text \<open>
  Claim C4, as stated, at the delete operation: the cluster \<open>web\<close> is resolved to its
  record and the native-compute broker, and the call of \<^verbatim>\<open>delete_cluster\<close> that follows
  carries the name of the cluster only; the record is not among its arguments.
\<close>

theorem delete_cluster_counterexample:
  "get_cluster_info world_example (manager_example []) [(''cluster_name'', PStr ''web'')] [] =
     (Inr (cluster_web, VcdBroker), [EvGetClusterInfo VcdBroker (PStr ''web'') (Inr cluster_web)])
   \<and> delete_cluster world_example (manager_example []) [(''cluster_name'', PStr ''web'')] [] =
     (Inr (PStr ''task-delete''),
      [EvGetClusterInfo VcdBroker (PStr ''web'') (Inr cluster_web),
       EvDeleteCluster VcdBroker [(''cluster_name'', AVal (PStr ''web''))]
         (Inr (PStr ''task-delete''))])
   \<and> ARec cluster_web \<notin> snd ` set [(''cluster_name'', AVal (PStr ''web''))]"
  by (simp add: get_cluster_info_web delete_cluster_def dict_index_def world_example_simps Let_def)

text \<open>
  Claim C4, amended. When ownership resolution yields a cluster record and a broker, the
  resize operation makes one call of \<^verbatim>\<open>resize_cluster\<close> on that broker with the record as
  \<^verbatim>\<open>curr_cluster_info\<close> next to the request's parameters, and the delete operation makes
  one call of \<^verbatim>\<open>delete_cluster\<close> on that broker with the name of the cluster as its only
  argument.
\<close>

theorem resize_passes_record_delete_passes_name:
  assumes "get_cluster_info w self cluster_spec tr = (Inr (cluster, broker), tr1)"
  shows "resize_cluster w self cluster_spec tr =
           (let kw = (''curr_cluster_info'', ARec cluster) # kwargs_of cluster_spec;
                r = broker_resize_cluster w tr1 broker kw
            in (r, tr1 @ [EvResizeCluster broker kw r]))
         \<and> (\<exists>cluster_name.
               dict_index cluster_spec ''cluster_name'' = Inr cluster_name
               \<and> delete_cluster w self cluster_spec tr =
                   (let kw = [(''cluster_name'', AVal cluster_name)];
                        r = broker_delete_cluster w tr1 broker kw
                    in (r, tr1 @ [EvDeleteCluster broker kw r])))"
proof -
  have resize: "resize_cluster w self cluster_spec tr =
           (let kw = (''curr_cluster_info'', ARec cluster) # kwargs_of cluster_spec;
                r = broker_resize_cluster w tr1 broker kw
            in (r, tr1 @ [EvResizeCluster broker kw r]))"
    using assms by (simp add: resize_cluster_def)
  obtain cluster_name where name: "dict_index cluster_spec ''cluster_name'' = Inr cluster_name"
    using assms
    by (cases "dict_index cluster_spec ''cluster_name''") (simp_all add: get_cluster_info_def)
  have "delete_cluster w self cluster_spec tr =
                   (let kw = [(''cluster_name'', AVal cluster_name)];
                        r = broker_delete_cluster w tr1 broker kw
                    in (r, tr1 @ [EvDeleteCluster broker kw r]))"
    using assms name by (simp add: delete_cluster_def)
  with resize name show ?thesis by blast
qed

theorem resize_passes_record_delete_passes_name_witness:
  "get_cluster_info world_example (manager_example [])
       [(''cluster_name'', PStr ''web''), (''node_count'', PInt 5)] [] =
     (Inr (cluster_web, VcdBroker), [EvGetClusterInfo VcdBroker (PStr ''web'') (Inr cluster_web)])
   \<and> resize_cluster world_example (manager_example [])
       [(''cluster_name'', PStr ''web''), (''node_count'', PInt 5)] [] =
     (Inr (PStr ''task-resize''),
      [EvGetClusterInfo VcdBroker (PStr ''web'') (Inr cluster_web),
       EvResizeCluster VcdBroker
         [(''curr_cluster_info'', ARec cluster_web), (''cluster_name'', AVal (PStr ''web'')),
          (''node_count'', AVal (PInt 5))]
         (Inr (PStr ''task-resize''))])
   \<and> delete_cluster world_example (manager_example [])
       [(''cluster_name'', PStr ''web''), (''node_count'', PInt 5)] [] =
     (Inr (PStr ''task-delete''),
      [EvGetClusterInfo VcdBroker (PStr ''web'') (Inr cluster_web),
       EvDeleteCluster VcdBroker [(''cluster_name'', AVal (PStr ''web''))]
         (Inr (PStr ''task-delete''))])"
proof -
  have g: "get_cluster_info world_example (manager_example [])
       [(''cluster_name'', PStr ''web''), (''node_count'', PInt 5)] [] =
     (Inr (cluster_web, VcdBroker), [EvGetClusterInfo VcdBroker (PStr ''web'') (Inr cluster_web)])"
    by (simp add: get_cluster_info_def dict_index_def manager_example_def find_cluster_in_org_def
      world_example_simps get_cluster_info_example_def cluster_web_nonempty)
  show ?thesis
    using resize_passes_record_delete_passes_name [OF g] g
    by (simp add: kwargs_of_def world_example_simps Let_def dict_index_def)
qed

section \<open>Compute-profile provisioning\<close>

lemma set_metadata_calls_simps [simp]:
  "set_metadata_calls [] = []"
  "set_metadata_calls (e # tr) = set_metadata_of e @ set_metadata_calls tr"
  "set_metadata_calls (tr @ tr') = set_metadata_calls tr @ set_metadata_calls tr'"
  by (simp_all add: set_metadata_calls_def)

lemma create_pks_compute_profile_result:
  assumes "create_pks_compute_profile w self pks_ctx_opt tr = (res, tr')"
  shows "\<exists>new. tr' = tr @ new \<and> set_metadata_calls new = []
           \<and> (\<forall>b kw st. EvCreateComputeProfile b kw (Inl (PksServerError st)) \<in> set new \<longrightarrow>
                 (if st = PInt 409
                  then res = Inr () \<and>
                       (\<exists>m. EvLog (LogComputeProfileExists m (PksServerError st)) \<in> set new)
                  else res = Inl (PksServerError st)))"
proof (cases "get_compute_profile_name w (dict_get (req_spec self) ''ovdc_id'')
                (dict_get (req_spec self) ''ovdc_name'')")
  case (Inl e)
  with assms have "tr' = tr @ []" by (simp add: create_pks_compute_profile_def Let_def)
  then show ?thesis by (intro exI [of _ "[]"]) simp
next
  case m: (Inr m)
  show ?thesis
  proof (cases pks_ctx_opt)
    case None
    with assms m have "tr' = tr @ []" by (simp add: create_pks_compute_profile_def Let_def)
    then show ?thesis by (intro exI [of _ "[]"]) simp
  next
    case (Some pks_ctx)
    define kw where "kw =
      PksComputeProfileParams_to_dict m
        (PStr (''az-'' @ py_str (dict_get (req_spec self) ''ovdc_name'')))
        (PStr (py_str (dict_get (req_spec self) ''org_name'') @ ''--'' @
               py_str (dict_get (req_spec self) ''ovdc_name'') @ ''--'' @
               py_str (dict_get (req_spec self) ''ovdc_id'')))
        (dict_get pks_ctx ''cpi'') (dict_get pks_ctx ''datacenter'') (dict_get pks_ctx ''cluster'')
        (PStr (py_str (dict_get (req_spec self) ''ovdc_name'') @ '' ('' @
               py_str (dict_get (req_spec self) ''ovdc_id'') @ '')''))"
    define r where "r = broker_create_compute_profile w
                          (tr @ [EvLog (LogCreatingComputeProfile m)]) (PKSBroker pks_ctx) kw"
    let ?base = "[EvLog (LogCreatingComputeProfile m),
                  EvCreateComputeProfile (PKSBroker pks_ctx) kw r]"
    note defs = create_pks_compute_profile_def Let_def HTTPStatus_CONFLICT_value_def
    show ?thesis
    proof (cases r)
      case (Inr u)
      with assms m Some have "res = Inr () \<and> tr' = tr @ ?base"
        unfolding r_def kw_def by (auto simp add: defs)
      then show ?thesis
        by (intro exI [of _ ?base]) (simp add: Inr)
    next
      case (Inl ex)
      show ?thesis
      proof (cases "ex = PksServerError (PInt 409)")
        case True
        with assms m Some Inl
        have "res = Inr () \<and> tr' = tr @ ?base @ [EvLog (LogComputeProfileExists m ex)]"
          unfolding r_def kw_def by (auto simp add: defs)
        with True show ?thesis
          by (intro exI [of _ "?base @ [EvLog (LogComputeProfileExists m ex)]"])
             (auto simp add: Inl)
      next
        case False
        with assms m Some Inl have "res = Inl ex \<and> tr' = tr @ ?base"
          unfolding r_def kw_def by (cases ex) (auto simp add: defs)
        with False show ?thesis
          by (intro exI [of _ ?base]) (auto simp add: Inl)
      qed
    qed
  qed
qed

text \<open>
  Claim C8. Take an enable request during which the creation of the compute profile
  raised a \<^verbatim>\<open>PksServerError\<close> of status \<open>st\<close>. If \<open>st\<close> is 409, the error is logged, the
  operation goes on to record the ownership of the virtual datacenter, which is its last
  step, and its outcome is that of this step: the task handle with status
  \<^verbatim>\<open>ACCEPTED\<close> when it succeeds. If \<open>st\<close> is not 409, the operation raises that very error
  and never records the ownership.
\<close>

theorem enable_ovdc_conflict_swallowed:
  assumes run: "invoke w self ENABLE_OVDC tr = (res, tr @ new)"
      and ev: "EvCreateComputeProfile b kw (Inl (PksServerError st)) \<in> set new"
  shows "(st = PInt 409 \<longrightarrow>
            (\<exists>m. EvLog (LogComputeProfileExists m (PksServerError st)) \<in> set new)
            \<and> (\<exists>ovdc kw' r. last new = EvSetMetadata ovdc kw' r
                  \<and> res = (case r of
                             Inl e \<Rightarrow> Inl e
                           | Inr task \<Rightarrow>
                               Inr \<lparr>body = BDict [(''task_href'', dict_get task ''href'')],
                                    status_code = ACCEPTED\<rparr>)))
       \<and> (st \<noteq> PInt 409 \<longrightarrow> res = Inl (PksServerError st) \<and> set_metadata_calls new = [])"
proof -
  let ?self = "self\<lparr>is_ovdc_present_in_request :=
                         py_or (dict_get (req_spec self) ''vdc'')
                               (dict_get (req_qparams self) ''vdc'')\<rparr>"
  from run have en: "enable_ovdc w ?self tr = (res, tr @ new)"
    by (simp add: invoke_def Let_def)
  show ?thesis
  proof (cases "get_ovdc_params w ?self")
    case (Inl e)
    with en ev show ?thesis by (simp add: enable_ovdc_def)
  next
    case (Inr po)
    obtain pks_ctx ovdc where po: "po = (pks_ctx, ovdc)" by (cases po)
    show ?thesis
    proof (cases "dict_index (req_spec ?self) CONTAINER_PROVIDER_KEY")
      case (Inl e)
      with en ev Inr po show ?thesis by (simp add: enable_ovdc_def)
    next
      case p: (Inr p)
      show ?thesis
      proof (cases "p = CtrProvType_value PKS")
        case False
        with en ev Inr po p show ?thesis
          by (auto simp add: enable_ovdc_def Let_def split: sum.splits)
      next
        case True
        obtain r1 tr1 where c: "create_pks_compute_profile w ?self pks_ctx tr = (r1, tr1)"
          by (cases "create_pks_compute_profile w ?self pks_ctx tr")
        from create_pks_compute_profile_result [OF c] obtain new1 where
          tr1: "tr1 = tr @ new1" and nos: "set_metadata_calls new1 = []"
          and cp: "\<And>b kw st. EvCreateComputeProfile b kw (Inl (PksServerError st)) \<in> set new1 \<Longrightarrow>
                 (if st = PInt 409
                  then r1 = Inr () \<and>
                       (\<exists>m. EvLog (LogComputeProfileExists m (PksServerError st)) \<in> set new1)
                  else r1 = Inl (PksServerError st))"
          by blast
        show ?thesis
        proof (cases r1)
          case (Inl e)
          with en Inr po p True c tr1 have "res = Inl e" "new = new1"
            by (simp_all add: enable_ovdc_def)
          with cp [of b kw st] ev Inl nos show ?thesis by (auto split: if_splits)
        next
          case u: (Inr u)
          define kw' where "kw' = [(''container_prov_data'', arg_of_option pks_ctx),
                               (''container_provider'', AVal p)]"
          define r where "r = set_ovdc_container_provider_metadata w tr1 ovdc kw'"
          from en Inr po p True c tr1 u
          have new: "new = new1 @ [EvSetMetadata ovdc kw' r]"
            and res: "res = (case r of
                             Inl e \<Rightarrow> Inl e
                           | Inr task \<Rightarrow>
                               Inr \<lparr>body = BDict [(''task_href'', dict_get task ''href'')],
                                    status_code = ACCEPTED\<rparr>)"
            by (auto simp add: enable_ovdc_def Let_def kw'_def r_def split: sum.splits)
          from ev new have ev1: "EvCreateComputeProfile b kw (Inl (PksServerError st)) \<in> set new1"
            by simp
          from cp [OF ev1] u have st: "st = PInt 409"
            and lg: "\<exists>m. EvLog (LogComputeProfileExists m (PksServerError st)) \<in> set new1"
            by (auto split: if_splits)
          from st lg new res show ?thesis by auto
        qed
      qed
    qed
  qed
qed

theorem enable_ovdc_conflict_swallowed_witness:
  "invoke world_example (manager_example enable_spec_example) ENABLE_OVDC [] =
     (Inr \<lparr>body = BDict [(''task_href'', PStr ''https://vcd/task/1'')], status_code = ACCEPTED\<rparr>,
      [] @ enable_trace_conflict)
   \<and> EvCreateComputeProfile (PKSBroker pks_ctx_vc1) compute_profile_params_example
         (Inl (PksServerError (PInt 409))) \<in> set enable_trace_conflict
   \<and> EvLog (LogComputeProfileExists (PStr ''cp--id2--vdc2'') (PksServerError (PInt 409)))
         \<in> set enable_trace_conflict
   \<and> set_metadata_calls enable_trace_conflict =
         [[(''container_prov_data'', ARec pks_ctx_vc1),
           (''container_provider'', AVal (PStr ''pks''))]]
   \<and> invoke world_example_failing_profile (manager_example enable_spec_example) ENABLE_OVDC [] =
         (Inl (PksServerError (PInt 500)), [] @ enable_trace_failure)
   \<and> EvCreateComputeProfile (PKSBroker pks_ctx_vc1) compute_profile_params_example
         (Inl (PksServerError (PInt 500))) \<in> set enable_trace_failure
   \<and> set_metadata_calls enable_trace_failure = []"
proof -
  have run1: "invoke world_example (manager_example enable_spec_example) ENABLE_OVDC [] =
     (Inr \<lparr>body = BDict [(''task_href'', PStr ''https://vcd/task/1'')], status_code = ACCEPTED\<rparr>,
      [] @ enable_trace_conflict)"
    by code_simp
  have ev1: "EvCreateComputeProfile (PKSBroker pks_ctx_vc1) compute_profile_params_example
         (Inl (PksServerError (PInt 409))) \<in> set enable_trace_conflict"
    by (simp add: enable_trace_conflict_def)
  have log1: "EvLog (LogComputeProfileExists (PStr ''cp--id2--vdc2'') (PksServerError (PInt 409)))
         \<in> set enable_trace_conflict"
    by (simp add: enable_trace_conflict_def)
  have set1: "set_metadata_calls enable_trace_conflict =
         [[(''container_prov_data'', ARec pks_ctx_vc1),
           (''container_provider'', AVal (PStr ''pks''))]]"
    by (simp add: enable_trace_conflict_def)
  have run2: "invoke world_example_failing_profile (manager_example enable_spec_example)
                ENABLE_OVDC [] =
         (Inl (PksServerError (PInt 500)), [] @ enable_trace_failure)"
    by code_simp
  have ev2: "EvCreateComputeProfile (PKSBroker pks_ctx_vc1) compute_profile_params_example
         (Inl (PksServerError (PInt 500))) \<in> set enable_trace_failure"
    by (simp add: enable_trace_failure_def)
  from enable_ovdc_conflict_swallowed [OF run2 ev2]
  have "set_metadata_calls enable_trace_failure = []" by simp
  with enable_ovdc_conflict_swallowed [OF run1 ev1] run1 ev1 log1 set1 run2 ev2
  show ?thesis by blast
qed

section \<open>The flag set by the dispatcher\<close>

text \<open>
  Only \<^verbatim>\<open>_get_cluster_info\<close>, \<^verbatim>\<open>_get_cluster_config\<close> and \<^verbatim>\<open>_list_clusters\<close> read
  \<open>is_ovdc_present_in_request\<close>.
\<close>

lemma create_pks_context_flag [simp]:
  "create_pks_context_for_all_accounts_in_org w (self\<lparr>is_ovdc_present_in_request := v\<rparr>) tr =
   create_pks_context_for_all_accounts_in_org w self tr"
  by (simp add: create_pks_context_for_all_accounts_in_org_def Let_def split: option.splits)

lemma find_cluster_in_org_flag [simp]:
  "find_cluster_in_org w (self\<lparr>is_ovdc_present_in_request := v\<rparr>) n tr =
   find_cluster_in_org w self n tr"
  by (simp add: find_cluster_in_org_def Let_def split: sum.splits)

lemma get_broker_based_on_vdc_flag [simp]:
  "get_broker_based_on_vdc w (self\<lparr>is_ovdc_present_in_request := v\<rparr>) tr =
   get_broker_based_on_vdc w self tr"
  by (simp add: get_broker_based_on_vdc_def)

lemma invoke_create:
  "invoke w self CREATE_CLUSTER tr =
     respond ACCEPTED BVal
       (create_cluster w (self\<lparr>is_ovdc_present_in_request :=
                         py_or (dict_get (req_spec self) ''vdc'')
                               (dict_get (req_qparams self) ''vdc'')\<rparr>)
                  [(''cluster_name'', dict_get (req_spec self) ''cluster_name''),
                   (''vdc_name'', dict_get (req_spec self) ''vdc''),
                   (''node_count'', dict_get (req_spec self) ''node_count''),
                   (''storage_profile'', dict_get (req_spec self) ''storage_profile''),
                   (''network_name'', dict_get (req_spec self) ''network''),
                   (''template'', dict_get (req_spec self) ''template''),
                   (''pks_plan'', dict_get (req_spec self) ''pks_plan''),
                   (''pks_ext_host'', dict_get (req_spec self) ''pks_ext_host'')] tr)"
  by (simp add: invoke_def Let_def)

section \<open>Fallback to the native-compute broker\<close>

text \<open>
  Claim C10. Let \<open>ovdc_name\<close> and \<open>org_name\<close> be the names that the dispatcher reads from
  the body of the request, its query parameters and the session. When one of them is
  missing, the resolution of the broker raises nothing, looks nothing up and yields the
  native-compute broker. Then a create request whose duplicate search ends without a
  cluster makes its call of \<^verbatim>\<open>create_cluster\<close> on the native-compute broker, and the
  outcome of that call is the outcome of the request.
\<close>

theorem missing_vdc_or_org_falls_back_to_native:
  assumes ovdc: "ovdc_name = py_or (dict_get (req_spec self) ''vdc'')
                                   (dict_get (req_qparams self) ''vdc'')"
      and org: "org_name = py_or (py_or (dict_get (req_spec self) ''org'')
                                        (dict_get (req_qparams self) ''org''))
                                 (dict_get (session self) ''org'')"
      and missing: "\<not> truthy ovdc_name \<or> \<not> truthy org_name"
  shows "get_broker_based_on_vdc w self tr =
           (Inr VcdBroker, tr @ [EvLog (LogOrgVdc org_name ovdc_name)])
       \<and> (\<forall>found tr1.
             find_cluster_in_org w self (dict_get (req_spec self) ''cluster_name'') tr =
               (Inr found, tr1)
             \<and> (\<forall>c b. found = Some (c, b) \<longrightarrow> c = []) \<longrightarrow>
             (\<exists>kw r. r = broker_create_cluster w (tr1 @ [EvLog (LogOrgVdc org_name ovdc_name)])
                          VcdBroker kw
                \<and> invoke w self CREATE_CLUSTER tr =
                    (case r of
                       Inl e \<Rightarrow> Inl e
                     | Inr v \<Rightarrow> Inr \<lparr>body = BVal v, status_code = ACCEPTED\<rparr>,
                     tr1 @ [EvLog (LogOrgVdc org_name ovdc_name),
                            EvCreateCluster VcdBroker kw r])))"
proof -
  have fallback: "get_broker_based_on_vdc w self tr' =
           (Inr VcdBroker, tr' @ [EvLog (LogOrgVdc org_name ovdc_name)])" for tr'
    using assms by (auto simp add: get_broker_based_on_vdc_def Let_def)
  have "\<exists>kw r. r = broker_create_cluster w (tr1 @ [EvLog (LogOrgVdc org_name ovdc_name)])
                          VcdBroker kw
                \<and> invoke w self CREATE_CLUSTER tr =
                    (case r of
                       Inl e \<Rightarrow> Inl e
                     | Inr v \<Rightarrow> Inr \<lparr>body = BVal v, status_code = ACCEPTED\<rparr>,
                     tr1 @ [EvLog (LogOrgVdc org_name ovdc_name),
                            EvCreateCluster VcdBroker kw r])"
    if search: "find_cluster_in_org w self (dict_get (req_spec self) ''cluster_name'') tr =
               (Inr found, tr1)"
      and none: "\<forall>c b. found = Some (c, b) \<longrightarrow> c = []"
    for found tr1
  proof -
    from none have test: "(case found of None \<Rightarrow> True | Some (cluster, _) \<Rightarrow> cluster = [])"
      by (cases found) auto
    show ?thesis
      unfolding invoke_create
      using search test fallback [of tr1]
      by (auto simp add: create_cluster_def dict_index_def respond_def Let_def
          split: sum.splits)
  qed
  with fallback [of tr] show ?thesis by blast
qed

theorem missing_vdc_or_org_falls_back_to_native_witness:
  "\<not> truthy PNone
   \<and> get_broker_based_on_vdc world_example
         (manager_example [(''cluster_name'', PStr ''new'')]) [] =
       (Inr VcdBroker, [EvLog (LogOrgVdc (PStr ''Acme'') PNone)])
   \<and> find_cluster_in_org world_example (manager_example [(''cluster_name'', PStr ''new'')])
         (PStr ''new'') [] = (Inr None, search_trace_missing (PStr ''new''))
   \<and> invoke world_example (manager_example [(''cluster_name'', PStr ''new'')])
         CREATE_CLUSTER [] =
       (Inr \<lparr>body = BVal (PStr ''task-create''), status_code = ACCEPTED\<rparr>,
        search_trace_missing (PStr ''new'') @
        [EvLog (LogOrgVdc (PStr ''Acme'') PNone),
         EvCreateCluster VcdBroker (create_kwargs_example (PStr ''new'') PNone)
           (Inr (PStr ''task-create''))])"
proof -
  let ?self = "manager_example [(''cluster_name'', PStr ''new'')]"
  have ovdc: "PNone = py_or (dict_get (req_spec ?self) ''vdc'') (dict_get (req_qparams ?self) ''vdc'')"
    by code_simp
  have org: "PStr ''Acme'' = py_or (py_or (dict_get (req_spec ?self) ''org'')
                                        (dict_get (req_qparams ?self) ''org''))
                                 (dict_get (session ?self) ''org'')"
    by code_simp
  have missing: "\<not> truthy PNone \<or> \<not> truthy (PStr ''Acme'')"
    by simp
  have search: "find_cluster_in_org world_example ?self (PStr ''new'') [] =
                  (Inr None, search_trace_missing (PStr ''new''))"
    by code_simp
  have run: "invoke world_example ?self CREATE_CLUSTER [] =
       (Inr \<lparr>body = BVal (PStr ''task-create''), status_code = ACCEPTED\<rparr>,
        search_trace_missing (PStr ''new'') @
        [EvLog (LogOrgVdc (PStr ''Acme'') PNone),
         EvCreateCluster VcdBroker (create_kwargs_example (PStr ''new'') PNone)
           (Inr (PStr ''task-create''))])"
    by code_simp
  from missing_vdc_or_org_falls_back_to_native [OF ovdc org missing, of world_example "[]"]
  have "get_broker_based_on_vdc world_example ?self [] =
          (Inr VcdBroker, [EvLog (LogOrgVdc (PStr ''Acme'') PNone)])"
    by simp
  with missing search run show ?thesis by simp
qed

section \<open>Basic facts about traces\<close>

lemma probes_simps [simp]:
  "probes [] = []"
  "probes (e # tr) = probe_of e @ probes tr"
  "probes (tr @ tr') = probes tr @ probes tr'"
  by (simp_all add: probes_def)

lemma broker_calls_simps [simp]:
  "broker_calls [] = []"
  "broker_calls (e # tr) = broker_call_of e @ broker_calls tr"
  "broker_calls (tr @ tr') = broker_calls tr @ broker_calls tr'"
  by (simp_all add: broker_calls_def)

lemma lookups_simps [simp]:
  "lookups [] = []"
  "lookups (e # tr) = lookup_of e @ lookups tr"
  "lookups (tr @ tr') = lookups tr @ lookups tr'"
  by (simp_all add: lookups_def)

lemma creates_simps [simp]:
  "creates [] = []"
  "creates (e # tr) = create_of e @ creates tr"
  "creates (tr @ tr') = creates tr @ creates tr'"
  by (simp_all add: creates_def)

lemma config_calls_simps [simp]:
  "config_calls [] = []"
  "config_calls (e # tr) = config_call_of e @ config_calls tr"
  "config_calls (tr @ tr') = config_calls tr @ config_calls tr'"
  by (simp_all add: config_calls_def)

lemma resolution_event_observed:
  "list_all is_resolution_event tr \<Longrightarrow>
     probes tr = [] \<and> broker_calls tr = [] \<and> creates tr = [] \<and> config_calls tr = []"
proof (induction tr)
  case Nil
  show ?case by simp
next
  case (Cons e tr)
  then show ?case by (cases e) simp_all
qed

lemma search_event_observed:
  "list_all is_search_event tr \<Longrightarrow>
     broker_calls tr = map fst (probes tr) \<and> creates tr = [] \<and> config_calls tr = []"
proof (induction tr)
  case Nil
  show ?case by simp
next
  case (Cons e tr)
  then show ?case by (cases e) simp_all
qed

lemma metadata_lookup_observed:
  "list_all is_metadata_lookup tr \<Longrightarrow>
     list_all is_search_event tr \<and> list_all is_resolution_event tr \<and> probes tr = []"
proof (induction tr)
  case Nil
  show ?case by simp
next
  case (Cons e tr)
  then show ?case by (cases e) simp_all
qed


lemma method_calls_simps [simp]:
  "method_calls [] = []"
  "method_calls (e # tr) = method_call_of e @ method_calls tr"
  "method_calls (tr @ tr') = method_calls tr @ method_calls tr'"
  by (simp_all add: method_calls_def)

lemma search_event_methods:
  "list_all is_search_event tr \<Longrightarrow>
     method_calls tr = map (\<lambda>p. (GetClusterInfo, fst p)) (probes tr)"
proof (induction tr)
  case Nil
  show ?case by simp
next
  case (Cons e tr)
  then show ?case by (cases e) simp_all
qed

lemma probes_answered_append:
  "probes_answered w n tr (xs @ ys) \<longleftrightarrow>
     probes_answered w n tr xs \<and> probes_answered w n (tr @ xs) ys"
proof (induction xs arbitrary: tr)
  case Nil
  show ?case by simp
next
  case (Cons e xs)
  show ?case by (cases e) (simp_all add: Cons.IH)
qed

lemma probes_answered_quiet:
  "probes xs = [] \<Longrightarrow> probes_answered w n tr xs"
proof (induction xs arbitrary: tr)
  case Nil
  show ?case by simp
next
  case (Cons e xs)
  then show ?case by (cases e) simp_all
qed

section \<open>The search over the external-service accounts\<close>

lemma find_cluster_in_pks_extends:
  "\<exists>new. snd (find_cluster_in_pks w n ctxs tr) = tr @ new"
proof (induction ctxs arbitrary: tr)
  case Nil
  show ?case by simp
next
  case (Cons pks_ctx rest)
  show ?case
  proof (cases "broker_get_cluster_info w tr (PKSBroker pks_ctx) n")
    case (Inr cluster)
    then show ?thesis by (simp add: Let_def)
  next
    case (Inl err)
    show ?thesis
    proof (cases "dict_index pks_ctx ''host''")
      case e: (Inl e)
      with Inl show ?thesis by (simp add: Let_def)
    next
      case (Inr host)
      from Cons.IH [of "tr @ [EvGetClusterInfo (PKSBroker pks_ctx) n (Inl err),
                        EvLog (LogGetClusterInfoFailedOnPks n host err)]"]
      show ?thesis using Inl Inr by (auto simp add: Let_def)
    qed
  qed
qed

lemma find_cluster_in_pks_search:
  assumes "find_cluster_in_pks w n ctxs tr = (res, tr @ new)"
  shows "list_all is_search_event new \<and> lookups new = []
       \<and> map fst (probes new) = map PKSBroker (take (length (probes new)) ctxs)
       \<and> (\<forall>p \<in> set (butlast (probes new)). isl (snd p))
       \<and> (\<forall>c b. res = Inr (Some (c, b)) \<longleftrightarrow> probes new \<noteq> [] \<and> last (probes new) = (b, Inr c))
       \<and> (res = Inr None \<longrightarrow> length (probes new) = length ctxs)"
  using assms
proof (induction ctxs arbitrary: tr new)
  case Nil
  then show ?case by auto
next
  case (Cons pks_ctx rest)
  let ?b = "PKSBroker pks_ctx"
  show ?case
  proof (cases "broker_get_cluster_info w tr ?b n")
    case (Inr cluster)
    with Cons.prems have "res = Inr (Some (cluster, ?b))" "new = [EvGetClusterInfo ?b n (Inr cluster)]"
      by (simp_all add: Let_def)
    then show ?thesis by auto
  next
    case (Inl err)
    show ?thesis
    proof (cases "dict_index pks_ctx ''host''")
      case e: (Inl e)
      with Inl Cons.prems have "res = Inl e" "new = [EvGetClusterInfo ?b n (Inl err)]"
        by (simp_all add: Let_def)
      then show ?thesis by auto
    next
      case (Inr host)
      let ?two = "[EvGetClusterInfo ?b n (Inl err), EvLog (LogGetClusterInfoFailedOnPks n host err)]"
      obtain new' where ext: "snd (find_cluster_in_pks w n rest (tr @ ?two)) = (tr @ ?two) @ new'"
        using find_cluster_in_pks_extends by blast
      from Cons.prems Inl Inr have run: "find_cluster_in_pks w n rest (tr @ ?two) = (res, tr @ new)"
        by (simp add: Let_def)
      with ext have new: "new = ?two @ new'" by simp
      from run new have "find_cluster_in_pks w n rest (tr @ ?two) = (res, (tr @ ?two) @ new')"
        by simp
      from Cons.IH [OF this] new show ?thesis
        by (auto simp add: butlast_append)
    qed
  qed
qed


lemma find_cluster_in_pks_answered:
  assumes "find_cluster_in_pks w n ctxs tr = (res, tr @ new)"
  shows "probes_answered w n tr new
       \<and> (\<forall>e. res = Inl e \<longrightarrow>
             probes new \<noteq> []
             \<and> (\<exists>pks_ctx. fst (last (probes new)) = PKSBroker pks_ctx
                   \<and> dict_index pks_ctx ''host'' = Inl e))"
  using assms
proof (induction ctxs arbitrary: tr new)
  case Nil
  then show ?case by auto
next
  case (Cons pks_ctx rest)
  let ?b = "PKSBroker pks_ctx"
  show ?case
  proof (cases "broker_get_cluster_info w tr ?b n")
    case (Inr cluster)
    with Cons.prems have "res = Inr (Some (cluster, ?b))" "new = [EvGetClusterInfo ?b n (Inr cluster)]"
      by (simp_all add: Let_def)
    with Inr show ?thesis by auto
  next
    case (Inl err)
    show ?thesis
    proof (cases "dict_index pks_ctx ''host''")
      case e: (Inl e)
      with Inl Cons.prems have "res = Inl e" "new = [EvGetClusterInfo ?b n (Inl err)]"
        by (simp_all add: Let_def)
      with Inl e show ?thesis by auto
    next
      case (Inr host)
      let ?two = "[EvGetClusterInfo ?b n (Inl err), EvLog (LogGetClusterInfoFailedOnPks n host err)]"
      obtain new' where ext: "snd (find_cluster_in_pks w n rest (tr @ ?two)) = (tr @ ?two) @ new'"
        using find_cluster_in_pks_extends by blast
      from Cons.prems Inl Inr have run: "find_cluster_in_pks w n rest (tr @ ?two) = (res, tr @ new)"
        by (simp add: Let_def)
      with ext have new: "new = ?two @ new'" by simp
      from run new have "find_cluster_in_pks w n rest (tr @ ?two) = (res, (tr @ ?two) @ new')"
        by simp
      from Cons.IH [OF this] new Inl show ?thesis
        by auto
    qed
  qed
qed

section \<open>The enumeration of accounts reads the directory only\<close>

lemma pks_ctx_dict_loop_trace:
  "pks_ctx_dict_loop w org_name ns d tr =
     (fst (pks_ctx_dict_loop w org_name ns d []), tr @ snd (pks_ctx_dict_loop w org_name ns d []))"
proof (induction ns arbitrary: d tr)
  case Nil
  show ?case by simp
next
  case (Cons vdc_name rest)
  have step: "pks_ctx_dict_loop w org_name rest d' (tr @ [ev]) =
                (fst (pks_ctx_dict_loop w org_name rest d' [ev]),
                 tr @ snd (pks_ctx_dict_loop w org_name rest d' [ev]))" for d' ev
    by (subst Cons.IH, subst (1 2) Cons.IH) simp
  show ?case
    by (simp add: Let_def step split: sum.splits)
qed


lemma pks_ctx_dict_loop_lookups:
  "list_all is_metadata_lookup (snd (pks_ctx_dict_loop w org_name ns d []))"
proof (induction ns arbitrary: d)
  case Nil
  show ?case by simp
next
  case (Cons vdc_name rest)
  have step: "snd (pks_ctx_dict_loop w org_name rest d' [ev]) =
                [ev] @ snd (pks_ctx_dict_loop w org_name rest d' [])" for d' ev
    by (subst pks_ctx_dict_loop_trace) simp
  show ?case
    using Cons.IH by (simp add: Let_def step split: sum.splits)
qed

lemma create_pks_context_trace:
  "create_pks_context_for_all_accounts_in_org w self tr =
     (fst (create_pks_context_for_all_accounts_in_org w self []),
      tr @ snd (create_pks_context_for_all_accounts_in_org w self []))"
proof -
  have step: "pks_ctx_dict_loop w org_name ns [] tr =
     (fst (pks_ctx_dict_loop w org_name ns [] []), tr @ snd (pks_ctx_dict_loop w org_name ns [] []))"
    for org_name ns
    by (rule pks_ctx_dict_loop_trace)
  show ?thesis
    by (simp add: create_pks_context_for_all_accounts_in_org_def Let_def step
        split: option.splits sum.splits prod.splits)
qed

lemma create_pks_context_lookups:
  "list_all is_metadata_lookup (snd (create_pks_context_for_all_accounts_in_org w self []))"
proof -
  have "list_all is_metadata_lookup tr1"
    if "pks_ctx_dict_loop w org_name ns [] [] = (r, tr1)" for org_name ns r tr1
    using pks_ctx_dict_loop_lookups [of w org_name ns "[]"] that by simp
  then show ?thesis
    by (auto simp add: create_pks_context_for_all_accounts_in_org_def Let_def
        split: option.splits sum.splits prod.splits)
qed

section \<open>The search over all providers\<close>

lemma find_cluster_in_org_extends:
  "\<exists>new. snd (find_cluster_in_org w self n tr) = tr @ new"
proof (cases "broker_get_cluster_info w tr VcdBroker n")
  case (Inr cluster)
  then show ?thesis by (simp add: find_cluster_in_org_def Let_def)
next
  case (Inl err)
  let ?two = "[EvGetClusterInfo VcdBroker n (Inl err), EvLog (LogGetClusterInfoFailedOnVcd n err)]"
  let ?enum = "create_pks_context_for_all_accounts_in_org w self"
  show ?thesis
  proof (cases "fst (?enum [])")
    case e: (Inl e)
    with Inl show ?thesis
      by (subst find_cluster_in_org_def, simp add: Let_def, subst create_pks_context_trace) simp
  next
    case (Inr ctxs)
    obtain new' where
      "snd (find_cluster_in_pks w n ctxs ((tr @ ?two) @ snd (?enum []))) =
         ((tr @ ?two) @ snd (?enum [])) @ new'"
      using find_cluster_in_pks_extends by blast
    with Inl Inr show ?thesis
      by (subst find_cluster_in_org_def, simp add: Let_def, subst create_pks_context_trace) simp
  qed
qed


lemma find_cluster_in_org_cases:
  assumes "find_cluster_in_org w self n tr = (res, tr @ new)"
  shows "(\<exists>c. res = Inr (Some (c, VcdBroker)) \<and> new = [EvGetClusterInfo VcdBroker n (Inr c)])
       \<or> (\<exists>err e. res = Inl e
              \<and> fst (create_pks_context_for_all_accounts_in_org w self []) = Inl e
              \<and> new = [EvGetClusterInfo VcdBroker n (Inl err),
                        EvLog (LogGetClusterInfoFailedOnVcd n err)]
                       @ snd (create_pks_context_for_all_accounts_in_org w self []))
       \<or> (\<exists>err ctxs tr1 new'.
              fst (create_pks_context_for_all_accounts_in_org w self []) = Inr ctxs
              \<and> tr1 = [EvGetClusterInfo VcdBroker n (Inl err),
                        EvLog (LogGetClusterInfoFailedOnVcd n err)]
                       @ snd (create_pks_context_for_all_accounts_in_org w self [])
              \<and> new = tr1 @ new'
              \<and> find_cluster_in_pks w n ctxs (tr @ tr1) = (res, (tr @ tr1) @ new'))"
proof (cases "broker_get_cluster_info w tr VcdBroker n")
  case (Inr cluster)
  with assms have "res = Inr (Some (cluster, VcdBroker)) \<and>
                   new = [EvGetClusterInfo VcdBroker n (Inr cluster)]"
    by (auto simp add: find_cluster_in_org_def Let_def)
  then show ?thesis by blast
next
  case (Inl err)
  let ?two = "[EvGetClusterInfo VcdBroker n (Inl err), EvLog (LogGetClusterInfoFailedOnVcd n err)]"
  let ?enum = "create_pks_context_for_all_accounts_in_org w self"
  have enum: "?enum (tr @ ?two) = (fst (?enum []), (tr @ ?two) @ snd (?enum []))"
    by (rule create_pks_context_trace)
  show ?thesis
  proof (cases "fst (?enum [])")
    case e: (Inl e)
    with Inl assms enum have "res = Inl e \<and> new = ?two @ snd (?enum [])"
      by (auto simp add: find_cluster_in_org_def Let_def)
    with e show ?thesis by blast
  next
    case (Inr ctxs)
    let ?tr1 = "?two @ snd (?enum [])"
    from Inl Inr assms enum
    have run: "find_cluster_in_pks w n ctxs (tr @ ?tr1) = (res, tr @ new)"
      by (simp add: find_cluster_in_org_def Let_def)
    obtain new' where "snd (find_cluster_in_pks w n ctxs (tr @ ?tr1)) = (tr @ ?tr1) @ new'"
      using find_cluster_in_pks_extends by blast
    with run have "new = ?tr1 @ new'" by simp
    with run Inr show ?thesis by auto
  qed
qed

lemma find_cluster_in_org_search:
  assumes "find_cluster_in_org w self n tr = (res, tr @ new)"
  shows "list_all is_search_event new
       \<and> probes new \<noteq> [] \<and> fst (hd (probes new)) = VcdBroker
       \<and> (\<forall>ctxs. fst (create_pks_context_for_all_accounts_in_org w self []) = Inr ctxs \<longrightarrow>
             map fst (probes new) = take (length (probes new)) (VcdBroker # map PKSBroker ctxs))
       \<and> (\<forall>p \<in> set (butlast (probes new)). isl (snd p))
       \<and> (\<forall>c b. res = Inr (Some (c, b)) \<longleftrightarrow> last (probes new) = (b, Inr c))
       \<and> (res = Inr None \<longrightarrow>
             (\<exists>ctxs. fst (create_pks_context_for_all_accounts_in_org w self []) = Inr ctxs
                \<and> length (probes new) = Suc (length ctxs)))
       \<and> (\<forall>e. fst (create_pks_context_for_all_accounts_in_org w self []) = Inl e \<longrightarrow>
             length (probes new) = 1)"
proof -
  let ?enum = "create_pks_context_for_all_accounts_in_org w self"
  have lk: "list_all is_search_event (snd (?enum []))" "probes (snd (?enum [])) = []"
    using metadata_lookup_observed [OF create_pks_context_lookups [of w self]] by simp_all
  from find_cluster_in_org_cases [OF assms]
  consider
    (native) c where "res = Inr (Some (c, VcdBroker))" "new = [EvGetClusterInfo VcdBroker n (Inr c)]"
  | (failed) err e where "res = Inl e" "fst (?enum []) = Inl e"
      "new = [EvGetClusterInfo VcdBroker n (Inl err), EvLog (LogGetClusterInfoFailedOnVcd n err)]
             @ snd (?enum [])"
  | (accounts) err ctxs tr1 new' where "fst (?enum []) = Inr ctxs"
      "tr1 = [EvGetClusterInfo VcdBroker n (Inl err), EvLog (LogGetClusterInfoFailedOnVcd n err)]
             @ snd (?enum [])"
      "new = tr1 @ new'"
      "find_cluster_in_pks w n ctxs (tr @ tr1) = (res, (tr @ tr1) @ new')"
    by blast
  then show ?thesis
  proof cases
    case native
    then show ?thesis by auto
  next
    case failed
    with lk show ?thesis by auto
  next
    case accounts
    from find_cluster_in_pks_search [OF accounts(4)] accounts(1,2,3) lk
    show ?thesis
      by (auto simp add: butlast_append take_map)
  qed
qed


lemma list_all_butlast_last:
  "ps \<noteq> [] \<Longrightarrow> list_all P ps \<longleftrightarrow> list_all P (butlast ps) \<and> P (last ps)"
  by (induction ps) auto

lemma find_cluster_in_org_outcome:
  assumes run: "find_cluster_in_org w self n tr = (res, tr @ new)"
  shows "(list_all (\<lambda>p. isl (snd p)) (probes new) \<longleftrightarrow> (\<forall>c b. res \<noteq> Inr (Some (c, b))))
       \<and> (list_all (\<lambda>p. missed (snd p)) (probes new) \<longleftrightarrow>
            (\<forall>c b. res = Inr (Some (c, b)) \<longrightarrow> c = []))"
proof -
  from find_cluster_in_org_search [OF run]
  have ne: "probes new \<noteq> []"
    and bl: "\<forall>p \<in> set (butlast (probes new)). isl (snd p)"
    and lst: "\<And>c b. res = Inr (Some (c, b)) \<longleftrightarrow> last (probes new) = (b, Inr c)"
    by blast+
  from bl have bl1: "list_all (\<lambda>p. isl (snd p)) (butlast (probes new))"
    and bl2: "list_all (\<lambda>p. missed (snd p)) (butlast (probes new))"
    by (auto simp add: list_all_iff missed_def split: sum.splits)
  obtain b r where last: "last (probes new) = (b, r)" by (cases "last (probes new)")
  show ?thesis
    unfolding list_all_butlast_last [OF ne]
    using bl1 bl2 lst last
    by (cases r) (auto simp add: missed_def)
qed


lemma get_broker_based_on_vdc_events:
  "\<exists>new. snd (get_broker_based_on_vdc w self tr) = tr @ new \<and> list_all is_resolution_event new"
  by (simp add: get_broker_based_on_vdc_def Let_def split: sum.splits)

lemma find_cluster_in_org_first_probe:
  "\<exists>post. snd (find_cluster_in_org w self n tr) =
            tr @ EvGetClusterInfo VcdBroker n (broker_get_cluster_info w tr VcdBroker n) # post"
proof (cases "broker_get_cluster_info w tr VcdBroker n")
  case (Inr cluster)
  then show ?thesis by (simp add: find_cluster_in_org_def Let_def)
next
  case (Inl err)
  let ?two = "[EvGetClusterInfo VcdBroker n (Inl err), EvLog (LogGetClusterInfoFailedOnVcd n err)]"
  let ?enum = "create_pks_context_for_all_accounts_in_org w self"
  show ?thesis
  proof (cases "fst (?enum [])")
    case e: (Inl e)
    with Inl show ?thesis
      by (subst find_cluster_in_org_def, simp add: Let_def, subst create_pks_context_trace) simp
  next
    case (Inr ctxs)
    obtain new' where
      "snd (find_cluster_in_pks w n ctxs ((tr @ ?two) @ snd (?enum []))) =
         ((tr @ ?two) @ snd (?enum [])) @ new'"
      using find_cluster_in_pks_extends by blast
    with Inl Inr show ?thesis
      by (subst find_cluster_in_org_def, simp add: Let_def, subst create_pks_context_trace) simp
  qed
qed

lemma find_cluster_in_org_answered:
  assumes run: "find_cluster_in_org w self n tr = (res, tr @ new)"
  shows "probes_answered w n tr new
       \<and> (\<forall>e. res = Inl e \<longrightarrow>
             (fst (create_pks_context_for_all_accounts_in_org w self []) = Inl e
              \<and> map fst (probes new) = [VcdBroker])
             \<or> (\<exists>pks_ctx. fst (last (probes new)) = PKSBroker pks_ctx
                   \<and> dict_index pks_ctx ''host'' = Inl e))"
proof -
  let ?enum = "create_pks_context_for_all_accounts_in_org w self"
  have lk: "probes (snd (?enum [])) = []"
    using metadata_lookup_observed [OF create_pks_context_lookups [of w self]] by simp
  from find_cluster_in_org_cases [OF assms]
  consider
    (native) c where "res = Inr (Some (c, VcdBroker))" "new = [EvGetClusterInfo VcdBroker n (Inr c)]"
  | (failed) err e where "res = Inl e" "fst (?enum []) = Inl e"
      "new = [EvGetClusterInfo VcdBroker n (Inl err), EvLog (LogGetClusterInfoFailedOnVcd n err)]
             @ snd (?enum [])"
  | (accounts) err ctxs tr1 new' where "fst (?enum []) = Inr ctxs"
      "tr1 = [EvGetClusterInfo VcdBroker n (Inl err), EvLog (LogGetClusterInfoFailedOnVcd n err)]
             @ snd (?enum [])"
      "new = tr1 @ new'"
      "find_cluster_in_pks w n ctxs (tr @ tr1) = (res, (tr @ tr1) @ new')"
    by blast
  then show ?thesis
  proof cases
    case native
    with find_cluster_in_org_first_probe [of w self n tr] run
    have "broker_get_cluster_info w tr VcdBroker n = Inr c" by simp
    with native show ?thesis by simp
  next
    case failed
    with find_cluster_in_org_first_probe [of w self n tr] run
    have first: "broker_get_cluster_info w tr VcdBroker n = Inl err" by simp
    have pa: "probes_answered w n tr new"
      unfolding failed(3) probes_answered_append
      using first probes_answered_quiet [OF lk] by simp
    have "map fst (probes new) = [VcdBroker]"
      using failed(3) lk by simp
    with pa failed(1,2) show ?thesis by blast
  next
    case accounts
    from find_cluster_in_org_first_probe [of w self n tr] run accounts(2,3)
    have first: "broker_get_cluster_info w tr VcdBroker n = Inl err" by simp
    note pks = find_cluster_in_pks_answered [OF accounts(4)]
    from pks have pa': "probes_answered w n (tr @ tr1) new'" by blast
    have pa: "probes_answered w n tr new"
      unfolding accounts(3) probes_answered_append
      using first probes_answered_quiet [OF lk] pa' by (simp add: accounts(2) probes_answered_append)
    have "\<exists>pks_ctx. fst (last (probes new)) = PKSBroker pks_ctx
                   \<and> dict_index pks_ctx ''host'' = Inl e" if err: "res = Inl e" for e
    proof -
      from pks err obtain pks_ctx where ne: "probes new' \<noteq> []"
        and l: "fst (last (probes new')) = PKSBroker pks_ctx"
        and h: "dict_index pks_ctx ''host'' = Inl e"
        by blast
      from ne have "last (probes new) = last (probes new')"
        unfolding accounts(3) by simp
      with l h show ?thesis by auto
    qed
    with pa show ?thesis by blast
  qed
qed

lemma find_cluster_in_org_complete:
  assumes run: "find_cluster_in_org w self n tr = (res, tr @ new)"
      and none: "res = Inr None"
  shows "(\<exists>ctxs. fst (create_pks_context_for_all_accounts_in_org w self []) = Inr ctxs
                \<and> map fst (probes new) = VcdBroker # map PKSBroker ctxs)
         \<and> list_all (\<lambda>p. isl (snd p)) (probes new)"
proof -
  note search = find_cluster_in_org_search [OF run]
  note outcome = find_cluster_in_org_outcome [OF run]
  from search none obtain ctxs where
    enum: "fst (create_pks_context_for_all_accounts_in_org w self []) = Inr ctxs"
    and len: "length (probes new) = Suc (length ctxs)"
    by blast
  from search enum
  have "map fst (probes new) = take (length (probes new)) (VcdBroker # map PKSBroker ctxs)"
    by blast
  with len have "map fst (probes new) = VcdBroker # map PKSBroker ctxs" by simp
  with enum outcome none show ?thesis by auto
qed

lemma create_cluster_shape:
  assumes name: "dict_index cluster_spec ''cluster_name'' = Inr n"
      and run: "create_cluster w self cluster_spec tr = (res, tr @ new)"
      and search: "find_cluster_in_org w self n tr = (res_f, tr @ new_f)"
  shows "\<exists>rest. new = new_f @ rest \<and> probes rest = []
           \<and> (creates rest \<noteq> [] \<longrightarrow>
                 (\<exists>found. res_f = Inr found) \<and> list_all (\<lambda>p. missed (snd p)) (probes new_f))"
proof (cases res_f)
  case (Inl e)
  with run name search have "new = new_f"
    by (auto simp add: create_cluster_def)
  then show ?thesis by simp
next
  case (Inr found)
  note outcome = find_cluster_in_org_outcome [OF search]
  show ?thesis
  proof (cases "case found of None \<Rightarrow> True | Some (cluster, _) \<Rightarrow> cluster = []")
    case False
    with run name search Inr have "new = new_f"
      by (auto simp add: create_cluster_def)
    then show ?thesis by simp
  next
    case True
    with outcome Inr have missed: "list_all (\<lambda>p. missed (snd p)) (probes new_f)"
      by (auto split: option.splits)
    obtain rb new_b where
      resolve: "get_broker_based_on_vdc w self (tr @ new_f) = (rb, (tr @ new_f) @ new_b)"
      and quiet_b: "list_all is_resolution_event new_b"
      using get_broker_based_on_vdc_events [of w self "tr @ new_f"]
      by (cases "get_broker_based_on_vdc w self (tr @ new_f)") auto
    from resolution_event_observed [OF quiet_b]
    have obs_b: "probes new_b = []" by simp
    show ?thesis
    proof (cases rb)
      case e: (Inl e)
      with run name search Inr True resolve
      have "new = new_f @ new_b"
        by (auto simp add: create_cluster_def)
      with obs_b missed Inr show ?thesis by simp
    next
      case b: (Inr broker)
      let ?kw = "kwargs_of cluster_spec"
      let ?r = "broker_create_cluster w ((tr @ new_f) @ new_b) broker ?kw"
      from run name search Inr True resolve b
      have "new = new_f @ new_b @ [EvCreateCluster broker ?kw ?r]"
        by (auto simp add: create_cluster_def Let_def)
      with obs_b missed Inr show ?thesis by simp
    qed
  qed
qed

section \<open>Creation of a cluster\<close>

text \<open>
  Claim C1. A cluster is found when some probe of the search returns a record that is not
  empty. If the search of a create request finds a cluster, on whichever provider, the
  request raises the duplicate error and no call of \<^verbatim>\<open>create_cluster\<close> is made. If the
  search ends and finds none, the broker is resolved from the vdc and the organization of
  the request; an error of that resolution is the outcome, and otherwise exactly one call
  of \<^verbatim>\<open>create_cluster\<close> is made, on the resolved broker, with the parameters of the
  request, and its outcome is the outcome of the request. In that case the trace of the
  request is the trace of the search followed by events that probe nothing, so every probe
  precedes the resolution and the call of \<^verbatim>\<open>create_cluster\<close>; and the search has
  covered every provider: the brokers probed are the native-compute broker followed by the
  broker of every enumerated account, in the order of the enumeration, and every probe
  raised. The one exception is a search whose last probe answered with an empty record,
  which the dispatcher takes for no cluster. A call of \<^verbatim>\<open>create_cluster\<close> is made only
  when the search returned and all its probes missed. Every probe asks for the requested
  name and records what the broker answered at that moment.
\<close>

theorem create_cluster_rejects_duplicates:
  assumes name: "dict_index cluster_spec ''cluster_name'' = Inr n"
      and run: "create_cluster w self cluster_spec tr = (res, tr @ new)"
  shows "(\<not> list_all (\<lambda>p. missed (snd p)) (probes new) \<longrightarrow>
            res = Inl (CseServerError (ClusterAlreadyFound n)) \<and> creates new = [])
       \<and> (\<forall>found tr1.
             find_cluster_in_org w self n tr = (Inr found, tr1)
             \<and> list_all (\<lambda>p. missed (snd p)) (probes new) \<longrightarrow>
             (case get_broker_based_on_vdc w self tr1 of
                (Inl e, tr2) \<Rightarrow> res = Inl e \<and> tr @ new = tr2 \<and> creates new = []
              | (Inr broker, tr2) \<Rightarrow>
                  res = broker_create_cluster w tr2 broker (kwargs_of cluster_spec)
                  \<and> tr @ new = tr2 @ [EvCreateCluster broker (kwargs_of cluster_spec) res]
                  \<and> creates new = [(broker, kwargs_of cluster_spec)]))
       \<and> (\<forall>found tr1.
             find_cluster_in_org w self n tr = (Inr found, tr1)
             \<and> list_all (\<lambda>p. missed (snd p)) (probes new) \<longrightarrow>
             (\<exists>new_f rest. tr1 = tr @ new_f \<and> new = new_f @ rest
                \<and> creates new_f = [] \<and> probes rest = [])
             \<and> (snd (last (probes new)) = Inr []
                \<or> (\<exists>ctxs. fst (create_pks_context_for_all_accounts_in_org w self []) = Inr ctxs
                      \<and> map fst (probes new) = VcdBroker # map PKSBroker ctxs
                      \<and> list_all (\<lambda>p. isl (snd p)) (probes new))))
       \<and> (creates new \<noteq> [] \<longrightarrow>
             (\<exists>found tr1. find_cluster_in_org w self n tr = (Inr found, tr1))
             \<and> list_all (\<lambda>p. missed (snd p)) (probes new))
       \<and> probes_answered w n tr new"
proof -
  obtain res_f new_f where search: "find_cluster_in_org w self n tr = (res_f, tr @ new_f)"
    using find_cluster_in_org_extends [of w self n tr]
    by (cases "find_cluster_in_org w self n tr") auto
  note outcome = find_cluster_in_org_outcome [OF search]
  note found_last = find_cluster_in_org_search [OF search]
  from find_cluster_in_org_search [OF search]
  have "list_all is_search_event new_f" by blast
  then have quiet: "creates new_f = []" using search_event_observed by blast
  from create_cluster_shape [OF name run search] obtain rest where
    new: "new = new_f @ rest" and quiet_r: "probes rest = []"
    and made: "creates rest \<noteq> [] \<longrightarrow>
                 (\<exists>found. res_f = Inr found) \<and> list_all (\<lambda>p. missed (snd p)) (probes new_f)"
    by blast
  from new quiet_r have same: "probes new = probes new_f" by simp
  have old: "(\<not> list_all (\<lambda>p. missed (snd p)) (probes new) \<longrightarrow>
            res = Inl (CseServerError (ClusterAlreadyFound n)) \<and> creates new = [])
       \<and> (\<forall>found tr1.
             find_cluster_in_org w self n tr = (Inr found, tr1)
             \<and> list_all (\<lambda>p. missed (snd p)) (probes new) \<longrightarrow>
             (case get_broker_based_on_vdc w self tr1 of
                (Inl e, tr2) \<Rightarrow> res = Inl e \<and> tr @ new = tr2 \<and> creates new = []
              | (Inr broker, tr2) \<Rightarrow>
                  res = broker_create_cluster w tr2 broker (kwargs_of cluster_spec)
                  \<and> tr @ new = tr2 @ [EvCreateCluster broker (kwargs_of cluster_spec) res]
                  \<and> creates new = [(broker, kwargs_of cluster_spec)]))"
  proof (cases res_f)
    case (Inl e)
    with run name search have "res = Inl e" "new = new_f"
      by (auto simp add: create_cluster_def)
    with outcome Inl search show ?thesis
      by (auto simp add: list_all_iff missed_def)
  next
    case (Inr found)
    show ?thesis
    proof (cases "case found of None \<Rightarrow> True | Some (cluster, _) \<Rightarrow> cluster = []")
      case False
      with run name search Inr
      have "res = Inl (CseServerError (ClusterAlreadyFound n))" "new = new_f"
        by (auto simp add: create_cluster_def)
      with quiet outcome Inr False show ?thesis
        by (auto split: option.splits)
    next
      case True
      obtain rb new_b where
        resolve: "get_broker_based_on_vdc w self (tr @ new_f) = (rb, (tr @ new_f) @ new_b)"
        and quiet_b: "list_all is_resolution_event new_b"
        using get_broker_based_on_vdc_events [of w self "tr @ new_f"]
        by (cases "get_broker_based_on_vdc w self (tr @ new_f)") auto
      from resolution_event_observed [OF quiet_b]
      have obs_b: "probes new_b = []" "creates new_b = []" by simp_all
      show ?thesis
      proof (cases rb)
        case e: (Inl e)
        with run name search Inr True resolve
        have "res = Inl e" "new = new_f @ new_b"
          by (auto simp add: create_cluster_def)
        with quiet obs_b outcome Inr True search resolve e show ?thesis
          by (auto split: option.splits)
      next
        case b: (Inr broker)
        let ?kw = "kwargs_of cluster_spec"
        let ?r = "broker_create_cluster w ((tr @ new_f) @ new_b) broker ?kw"
        from run name search Inr True resolve b
        have "res = ?r" "new = new_f @ new_b @ [EvCreateCluster broker ?kw ?r]"
          by (auto simp add: create_cluster_def Let_def)
        with quiet obs_b outcome Inr True search resolve b show ?thesis
          by (auto split: option.splits)
      qed
    qed
  qed
  have covered: "(\<exists>new_f rest. tr1 = tr @ new_f \<and> new = new_f @ rest
                \<and> creates new_f = [] \<and> probes rest = [])
             \<and> (snd (last (probes new)) = Inr []
                \<or> (\<exists>ctxs. fst (create_pks_context_for_all_accounts_in_org w self []) = Inr ctxs
                      \<and> map fst (probes new) = VcdBroker # map PKSBroker ctxs
                      \<and> list_all (\<lambda>p. isl (snd p)) (probes new)))"
    if f: "find_cluster_in_org w self n tr = (Inr found, tr1)"
      and m: "list_all (\<lambda>p. missed (snd p)) (probes new)"
    for found tr1
  proof -
    from f search have res_f: "res_f = Inr found" and tr1: "tr1 = tr @ new_f" by simp_all
    from tr1 new quiet quiet_r
    have first: "\<exists>new_f rest. tr1 = tr @ new_f \<and> new = new_f @ rest
                \<and> creates new_f = [] \<and> probes rest = []"
      by blast
    show ?thesis
    proof (cases found)
      case None
      with res_f find_cluster_in_org_complete [OF search] same first show ?thesis
        by simp
    next
      case (Some cb)
      obtain c b where cb: "cb = (c, b)" by (cases cb)
      with Some res_f found_last have last: "last (probes new_f) = (b, Inr c)"
        by blast
      from outcome m same Some cb res_f have "c = []" by simp
      with last same first show ?thesis by simp
    qed
  qed
  have made': "(\<exists>found tr1. find_cluster_in_org w self n tr = (Inr found, tr1))
             \<and> list_all (\<lambda>p. missed (snd p)) (probes new)" if "creates new \<noteq> []"
    using that new quiet made same search by auto
  have answered: "probes_answered w n tr new"
    unfolding new probes_answered_append
    using find_cluster_in_org_answered [OF search] probes_answered_quiet [OF quiet_r]
    by blast
  from covered
  have covered': "\<forall>found tr1.
             find_cluster_in_org w self n tr = (Inr found, tr1)
             \<and> list_all (\<lambda>p. missed (snd p)) (probes new) \<longrightarrow>
             (\<exists>new_f rest. tr1 = tr @ new_f \<and> new = new_f @ rest
                \<and> creates new_f = [] \<and> probes rest = [])
             \<and> (snd (last (probes new)) = Inr []
                \<or> (\<exists>ctxs. fst (create_pks_context_for_all_accounts_in_org w self []) = Inr ctxs
                      \<and> map fst (probes new) = VcdBroker # map PKSBroker ctxs
                      \<and> list_all (\<lambda>p. isl (snd p)) (probes new)))"
    by (intro allI impI) (elim conjE)
  from made'
  have made'': "creates new \<noteq> [] \<longrightarrow>
             (\<exists>found tr1. find_cluster_in_org w self n tr = (Inr found, tr1))
             \<and> list_all (\<lambda>p. missed (snd p)) (probes new)"
    by (rule impI)
  note c1 = old [THEN conjunct1] and c2 = old [THEN conjunct2]
  show ?thesis
    by (rule conjI [OF c1 conjI [OF c2 conjI [OF covered' conjI [OF made'' answered]]]])
qed

theorem create_cluster_rejects_duplicates_witness:
  "dict_index (create_spec_example (PStr ''app'') (PStr ''vdc1'')) ''cluster_name'' = Inr (PStr ''app'')
   \<and> create_cluster world_example
         (manager_example [(''cluster_name'', PStr ''app''), (''vdc'', PStr ''vdc1'')])
         (create_spec_example (PStr ''app'') (PStr ''vdc1'')) [] =
       (Inl (CseServerError (ClusterAlreadyFound (PStr ''app''))), [] @ search_trace_app)
   \<and> \<not> list_all (\<lambda>p. missed (snd p)) (probes search_trace_app)
   \<and> creates search_trace_app = []
   \<and> find_cluster_in_org world_example
         (manager_example [(''cluster_name'', PStr ''new''), (''vdc'', PStr ''vdc4'')])
         (PStr ''new'') [] = (Inr None, search_trace_missing (PStr ''new''))
   \<and> get_broker_based_on_vdc world_example
         (manager_example [(''cluster_name'', PStr ''new''), (''vdc'', PStr ''vdc4'')])
         (search_trace_missing (PStr ''new'')) =
       (Inr (PKSBroker pks_ctx_vc2),
        search_trace_missing (PStr ''new'') @ resolution_trace_example ''vdc4'' pks_ctx_vc2)
   \<and> create_cluster world_example
         (manager_example [(''cluster_name'', PStr ''new''), (''vdc'', PStr ''vdc4'')])
         (create_spec_example (PStr ''new'') (PStr ''vdc4'')) [] =
       (Inr (PStr ''task-create''),
        [] @ (search_trace_missing (PStr ''new'') @ resolution_trace_example ''vdc4'' pks_ctx_vc2 @
              [EvCreateCluster (PKSBroker pks_ctx_vc2)
                 (create_kwargs_example (PStr ''new'') (PStr ''vdc4''))
                 (Inr (PStr ''task-create''))]))
   \<and> creates (search_trace_missing (PStr ''new'') @ resolution_trace_example ''vdc4'' pks_ctx_vc2 @
              [EvCreateCluster (PKSBroker pks_ctx_vc2)
                 (create_kwargs_example (PStr ''new'') (PStr ''vdc4''))
                 (Inr (PStr ''task-create''))]) =
       [(PKSBroker pks_ctx_vc2, create_kwargs_example (PStr ''new'') (PStr ''vdc4''))]
   \<and> fst (create_pks_context_for_all_accounts_in_org world_example
             (manager_example [(''cluster_name'', PStr ''new''), (''vdc'', PStr ''vdc4'')]) []) =
       Inr [pks_ctx_vc1, pks_ctx_vc2]
   \<and> map fst (probes
         (search_trace_missing (PStr ''new'') @ resolution_trace_example ''vdc4'' pks_ctx_vc2 @
              [EvCreateCluster (PKSBroker pks_ctx_vc2)
                 (create_kwargs_example (PStr ''new'') (PStr ''vdc4''))
                 (Inr (PStr ''task-create''))])) =
       VcdBroker # map PKSBroker [pks_ctx_vc1, pks_ctx_vc2]
   \<and> probes_answered world_example (PStr ''new'') []
         (search_trace_missing (PStr ''new'') @ resolution_trace_example ''vdc4'' pks_ctx_vc2 @
              [EvCreateCluster (PKSBroker pks_ctx_vc2)
                 (create_kwargs_example (PStr ''new'') (PStr ''vdc4''))
                 (Inr (PStr ''task-create''))])"
proof -
  let ?dup = "manager_example [(''cluster_name'', PStr ''app''), (''vdc'', PStr ''vdc1'')]"
  let ?fresh = "manager_example [(''cluster_name'', PStr ''new''), (''vdc'', PStr ''vdc4'')]"
  let ?created = "search_trace_missing (PStr ''new'') @ resolution_trace_example ''vdc4'' pks_ctx_vc2 @
              [EvCreateCluster (PKSBroker pks_ctx_vc2)
                 (create_kwargs_example (PStr ''new'') (PStr ''vdc4''))
                 (Inr (PStr ''task-create''))]"
  have name1: "dict_index (create_spec_example (PStr ''app'') (PStr ''vdc1'')) ''cluster_name'' =
                 Inr (PStr ''app'')"
    by code_simp
  have run1: "create_cluster world_example ?dup
                (create_spec_example (PStr ''app'') (PStr ''vdc1'')) [] =
       (Inl (CseServerError (ClusterAlreadyFound (PStr ''app''))), [] @ search_trace_app)"
    by code_simp
  have found: "\<not> list_all (\<lambda>p. missed (snd p)) (probes search_trace_app)"
    by (simp add: search_trace_app_def enumeration_trace_example_def missed_def cluster_app_def)
  from create_cluster_rejects_duplicates [OF name1 run1] found
  have none: "creates search_trace_app = []" by blast
  have name2: "dict_index (create_spec_example (PStr ''new'') (PStr ''vdc4'')) ''cluster_name'' =
                 Inr (PStr ''new'')"
    by code_simp
  have search2: "find_cluster_in_org world_example ?fresh (PStr ''new'') [] =
                   (Inr None, search_trace_missing (PStr ''new''))"
    by code_simp
  have resolve2: "get_broker_based_on_vdc world_example ?fresh (search_trace_missing (PStr ''new'')) =
       (Inr (PKSBroker pks_ctx_vc2),
        search_trace_missing (PStr ''new'') @ resolution_trace_example ''vdc4'' pks_ctx_vc2)"
    by code_simp
  have run2: "create_cluster world_example ?fresh
                (create_spec_example (PStr ''new'') (PStr ''vdc4'')) [] =
       (Inr (PStr ''task-create''), [] @ ?created)"
    by code_simp
  have kw: "kwargs_of (create_spec_example (PStr ''new'') (PStr ''vdc4'')) =
              create_kwargs_example (PStr ''new'') (PStr ''vdc4'')"
    by (simp add: kwargs_of_def create_spec_example_def create_kwargs_example_def)
  note thm2 = create_cluster_rejects_duplicates [OF name2 run2]
  have made2: "creates ?created \<noteq> []"
    by simp
  from thm2 made2
  have missed2: "list_all (\<lambda>p. missed (snd p)) (probes ?created)"
    by blast
  from thm2 [THEN conjunct2, THEN conjunct1, rule_format, OF conjI [OF search2 missed2]]
    resolve2 kw
  have one: "creates ?created =
               [(PKSBroker pks_ctx_vc2, create_kwargs_example (PStr ''new'') (PStr ''vdc4''))]"
    by simp
  have enum2: "fst (create_pks_context_for_all_accounts_in_org world_example ?fresh []) =
                 Inr [pks_ctx_vc1, pks_ctx_vc2]"
    by code_simp
  have last2: "snd (last (probes ?created)) \<noteq> Inr []"
    by (simp add: search_trace_missing_def enumeration_trace_example_def
        resolution_trace_example_def)
  from thm2 [THEN conjunct2, THEN conjunct2, THEN conjunct1, rule_format,
             OF conjI [OF search2 missed2]] last2 enum2
  have covered: "map fst (probes ?created) = VcdBroker # map PKSBroker [pks_ctx_vc1, pks_ctx_vc2]"
    by auto
  from thm2 have answered: "probes_answered world_example (PStr ''new'') [] ?created"
    by blast
  from name1 run1 found none search2 resolve2 run2 one enum2 covered answered
  show ?thesis by blast
qed

section \<open>Order of the search\<close>

text \<open>
  Claim C2. The first probe of a search goes to the native-compute broker. When the
  enumeration of accounts yields \<open>ctxs\<close>, the brokers probed are, in this order, an
  initial part of the native-compute broker followed by the brokers of \<open>ctxs\<close>. Every
  probe before the last one raised, so no candidate is probed after a probe has succeeded;
  the search returns a cluster and a broker exactly when its last probe succeeded, and then
  they are the record that this probe returned and the broker probed. The search calls
  brokers only to probe them. The search returns no cluster only when the enumeration
  succeeded and the native-compute broker and the broker of every enumerated account have
  been probed, each probe having raised. The search raises only the error of the
  enumeration, after its single probe of the native-compute broker, or the
  \<^verbatim>\<open>KeyError\<close> of an account context without \<^verbatim>\<open>host\<close>, whose probe was the last.
  Every probe asks for the name searched and records what the broker answered at that
  moment.
\<close>

theorem find_cluster_in_org_first_hit:
  assumes run: "find_cluster_in_org w self n tr = (res, tr @ new)"
  shows "probes new \<noteq> [] \<and> fst (hd (probes new)) = VcdBroker
       \<and> (\<forall>ctxs. fst (create_pks_context_for_all_accounts_in_org w self []) = Inr ctxs \<longrightarrow>
             map fst (probes new) = take (length (probes new)) (VcdBroker # map PKSBroker ctxs))
       \<and> (\<forall>p \<in> set (butlast (probes new)). isl (snd p))
       \<and> (\<forall>c b. res = Inr (Some (c, b)) \<longleftrightarrow> last (probes new) = (b, Inr c))
       \<and> broker_calls new = map fst (probes new)
       \<and> (res = Inr None \<longrightarrow>
             (\<exists>ctxs. fst (create_pks_context_for_all_accounts_in_org w self []) = Inr ctxs
                \<and> map fst (probes new) = VcdBroker # map PKSBroker ctxs)
             \<and> list_all (\<lambda>p. isl (snd p)) (probes new))
       \<and> (\<forall>e. res = Inl e \<longrightarrow>
             (fst (create_pks_context_for_all_accounts_in_org w self []) = Inl e
              \<and> map fst (probes new) = [VcdBroker])
             \<or> (\<exists>pks_ctx. fst (last (probes new)) = PKSBroker pks_ctx
                   \<and> dict_index pks_ctx ''host'' = Inl e))
       \<and> probes_answered w n tr new"
proof -
  note search = find_cluster_in_org_search [OF run]
  note answered = find_cluster_in_org_answered [OF run]
  from search have "list_all is_search_event new" by blast
  then have calls: "broker_calls new = map fst (probes new)"
    using search_event_observed by blast
  note complete = find_cluster_in_org_complete [OF run]
  from search calls complete answered show ?thesis by blast
qed

theorem find_cluster_in_org_first_hit_witness:
  "find_cluster_in_org world_example (manager_example []) (PStr ''app'') [] =
     (Inr (Some (cluster_app, PKSBroker pks_ctx_vc2)), [] @ search_trace_app)
   \<and> fst (create_pks_context_for_all_accounts_in_org world_example (manager_example []) []) =
       Inr [pks_ctx_vc1, pks_ctx_vc2]
   \<and> probes search_trace_app =
       [(VcdBroker, Inl (ClusterNotFoundError (PStr ''app''))),
        (PKSBroker pks_ctx_vc1, Inl (OtherException ''timeout'')),
        (PKSBroker pks_ctx_vc2, Inr cluster_app)]
   \<and> map fst (probes search_trace_app) =
       take (length (probes search_trace_app))
         (VcdBroker # map PKSBroker [pks_ctx_vc1, pks_ctx_vc2])
   \<and> last (probes search_trace_app) = (PKSBroker pks_ctx_vc2, Inr cluster_app)
   \<and> broker_calls search_trace_app = map fst (probes search_trace_app)
   \<and> probes_answered world_example (PStr ''app'') [] search_trace_app
   \<and> find_cluster_in_org world_example (manager_example []) (PStr ''new'') [] =
       (Inr None, [] @ search_trace_missing (PStr ''new''))
   \<and> map fst (probes (search_trace_missing (PStr ''new''))) =
       VcdBroker # map PKSBroker [pks_ctx_vc1, pks_ctx_vc2]
   \<and> list_all (\<lambda>p. isl (snd p)) (probes (search_trace_missing (PStr ''new'')))"
proof -
  have run: "find_cluster_in_org world_example (manager_example []) (PStr ''app'') [] =
     (Inr (Some (cluster_app, PKSBroker pks_ctx_vc2)), [] @ search_trace_app)"
    by code_simp
  have enum: "fst (create_pks_context_for_all_accounts_in_org world_example
                     (manager_example []) []) = Inr [pks_ctx_vc1, pks_ctx_vc2]"
    by code_simp
  have probes: "probes search_trace_app =
       [(VcdBroker, Inl (ClusterNotFoundError (PStr ''app''))),
        (PKSBroker pks_ctx_vc1, Inl (OtherException ''timeout'')),
        (PKSBroker pks_ctx_vc2, Inr cluster_app)]"
    by (simp add: search_trace_app_def enumeration_trace_example_def)
  from find_cluster_in_org_first_hit [OF run] enum
  have hit: "map fst (probes search_trace_app) =
          take (length (probes search_trace_app))
            (VcdBroker # map PKSBroker [pks_ctx_vc1, pks_ctx_vc2])
        \<and> last (probes search_trace_app) = (PKSBroker pks_ctx_vc2, Inr cluster_app)
        \<and> broker_calls search_trace_app = map fst (probes search_trace_app)
        \<and> probes_answered world_example (PStr ''app'') [] search_trace_app"
    by blast
  have run2: "find_cluster_in_org world_example (manager_example []) (PStr ''new'') [] =
       (Inr None, [] @ search_trace_missing (PStr ''new''))"
    by code_simp
  from find_cluster_in_org_first_hit [OF run2] enum
  have all: "map fst (probes (search_trace_missing (PStr ''new''))) =
          VcdBroker # map PKSBroker [pks_ctx_vc1, pks_ctx_vc2]
        \<and> list_all (\<lambda>p. isl (snd p)) (probes (search_trace_missing (PStr ''new'')))"
    by auto
  from run enum probes hit run2 all show ?thesis by blast
qed

section \<open>Failures during the search\<close>





section \<open>Accounts derived from the virtual datacenters of the organization\<close>

lemma set_update_cases:
  "(k', v') \<in> set (AList.update k v al) \<Longrightarrow> (k', v') = (k, v) \<or> (k', v') \<in> set al"
  by (induction al) (auto split: if_splits)

lemma update_keeps_keys:
  "fst ` set al \<subseteq> fst ` set (AList.update k v al)"
  by (simp add: AList.dom_update) blast

lemma update_has_key:
  "k \<in> fst ` set (AList.update k v al)"
  by (simp add: AList.dom_update)

lemma pks_ctx_dict_loop_result:
  assumes "pks_ctx_dict_loop w org_name ns d tr = (Inr d', tr')"
  shows "tr' = tr @ map (\<lambda>n. EvGetMetadata (enum_kw org_name n)
                               (get_ovdc_container_provider_metadata w (enum_kw org_name n))) ns
       \<and> (\<forall>(k, c) \<in> set d'. (k, c) \<in> set d \<or>
             (\<exists>n \<in> set ns. get_ovdc_container_provider_metadata w (enum_kw org_name n) = Inr c
                \<and> dict_index c CONTAINER_PROVIDER_KEY = Inr (CtrProvType_value PKS)
                \<and> dict_index c ''vc'' = Inr k))
       \<and> (\<forall>n \<in> set ns. \<forall>c. get_ovdc_container_provider_metadata w (enum_kw org_name n) = Inr c
             \<and> dict_index c CONTAINER_PROVIDER_KEY = Inr (CtrProvType_value PKS) \<longrightarrow>
             (\<exists>k \<in> fst ` set d'. dict_index c ''vc'' = Inr k))
       \<and> fst ` set d \<subseteq> fst ` set d'
       \<and> (distinct (map fst d) \<longrightarrow> distinct (map fst d'))"
  using assms
proof (induction ns arbitrary: d tr)
  case Nil
  then show ?case by auto
next
  case (Cons vdc_name rest)
  let ?kw = "enum_kw org_name vdc_name"
  let ?r = "get_ovdc_container_provider_metadata w ?kw"
  let ?tr1 = "tr @ [EvGetMetadata ?kw ?r]"
  from Cons.prems obtain c where c: "?r = Inr c"
    by (cases ?r) (auto simp add: enum_kw_def Let_def)
  from Cons.prems c obtain p where p: "dict_index c CONTAINER_PROVIDER_KEY = Inr p"
    by (cases "dict_index c CONTAINER_PROVIDER_KEY") (auto simp add: enum_kw_def Let_def)
  show ?case
  proof (cases "p = CtrProvType_value PKS")
    case False
    with Cons.prems c p have "pks_ctx_dict_loop w org_name rest d ?tr1 = (Inr d', tr')"
      by (auto simp add: enum_kw_def Let_def)
    from Cons.IH [OF this] c p False show ?thesis
      by auto
  next
    case True
    from Cons.prems c p True obtain k where k: "dict_index c ''vc'' = Inr k"
      by (cases "dict_index c ''vc''") (auto simp add: enum_kw_def Let_def)
    with Cons.prems c p True
    have "pks_ctx_dict_loop w org_name rest (AList.update k c d) ?tr1 = (Inr d', tr')"
      by (auto simp add: enum_kw_def Let_def)
    note ih = Cons.IH [OF this]
    from ih have tr: "tr' = tr @ map (\<lambda>n. EvGetMetadata (enum_kw org_name n)
                               (get_ovdc_container_provider_metadata w (enum_kw org_name n)))
                                  (vdc_name # rest)"
      by simp
    from ih have sub: "fst ` set (AList.update k c d) \<subseteq> fst ` set d'" by blast
    with update_keeps_keys [of d k c] update_has_key [of k c d]
    have keys: "fst ` set d \<subseteq> fst ` set d'" "k \<in> fst ` set d'" by blast+
    from ih have dist: "distinct (map fst d) \<longrightarrow> distinct (map fst d')"
      by (simp add: AList.distinct_update)
    from ih have origin: "\<forall>(k', c') \<in> set d'. (k', c') \<in> set d \<or>
             (\<exists>n \<in> set (vdc_name # rest).
                get_ovdc_container_provider_metadata w (enum_kw org_name n) = Inr c'
                \<and> dict_index c' CONTAINER_PROVIDER_KEY = Inr (CtrProvType_value PKS)
                \<and> dict_index c' ''vc'' = Inr k')"
      using set_update_cases [of _ _ k c d] c p True k by fastforce
    from ih keys c k have cover: "\<forall>n \<in> set (vdc_name # rest). \<forall>c'.
             get_ovdc_container_provider_metadata w (enum_kw org_name n) = Inr c'
             \<and> dict_index c' CONTAINER_PROVIDER_KEY = Inr (CtrProvType_value PKS) \<longrightarrow>
             (\<exists>k' \<in> fst ` set d'. dict_index c' ''vc'' = Inr k')"
      by auto
    from tr origin cover keys dist show ?thesis by blast
  qed
qed


text \<open>
  Claim C9. Let the caller be no system administrator and the organizations have no
  exclusive accounts. When the enumeration returns the contexts \<open>ctxs\<close>, it has looked up
  the ownership metadata of every virtual datacenter of the caller's organization, in
  order and nothing else; every context returned is the metadata of one of these
  datacenters and is owned by the external service; every datacenter owned by the external
  service has its compute endpoint \<^verbatim>\<open>vc\<close> among those of the contexts returned; and no two
  contexts returned have the same \<^verbatim>\<open>vc\<close>.
\<close>

theorem accounts_deduplicated_by_endpoint:
  assumes cache: "pks_cache self = Some cache"
      and user: "\<not> is_sysadmin w"
      and shared: "\<not> do_orgs_have_exclusive_pks_account cache"
      and org: "org_name = dict_get (session self) ''org''"
      and run: "create_pks_context_for_all_accounts_in_org w self tr = (Inr ctxs, tr')"
  shows "\<exists>names. vdc_names_of (list_vdcs (get_org w)) = Inr names
       \<and> tr' = tr @ map (\<lambda>n. EvGetMetadata (enum_kw org_name n)
                                 (get_ovdc_container_provider_metadata w (enum_kw org_name n)))
                         names
       \<and> (\<forall>c \<in> set ctxs. \<exists>n \<in> set names.
             get_ovdc_container_provider_metadata w (enum_kw org_name n) = Inr c
             \<and> dict_index c CONTAINER_PROVIDER_KEY = Inr (CtrProvType_value PKS))
       \<and> (\<forall>n \<in> set names. \<forall>c.
             get_ovdc_container_provider_metadata w (enum_kw org_name n) = Inr c
             \<and> dict_index c CONTAINER_PROVIDER_KEY = Inr (CtrProvType_value PKS) \<longrightarrow>
             (\<exists>c' \<in> set ctxs. dict_index c' ''vc'' = dict_index c ''vc''))
       \<and> distinct (map (\<lambda>c. dict_index c ''vc'') ctxs)"
proof -
  from run cache user shared obtain names where
    names: "vdc_names_of (list_vdcs (get_org w)) = Inr names"
    by (cases "vdc_names_of (list_vdcs (get_org w))")
       (auto simp add: create_pks_context_for_all_accounts_in_org_def Let_def)
  from run cache user shared org names obtain d' where
    loop: "pks_ctx_dict_loop w org_name names [] tr = (Inr d', tr')" and ctxs: "ctxs = map snd d'"
    by (auto simp add: create_pks_context_for_all_accounts_in_org_def Let_def
        split: sum.splits prod.splits)
  note result = pks_ctx_dict_loop_result [OF loop]
  from result have tr: "tr' = tr @ map (\<lambda>n. EvGetMetadata (enum_kw org_name n)
                                 (get_ovdc_container_provider_metadata w (enum_kw org_name n)))
                         names"
    by blast
  from result have origin: "\<And>k c. (k, c) \<in> set d' \<Longrightarrow>
             (\<exists>n \<in> set names. get_ovdc_container_provider_metadata w (enum_kw org_name n) = Inr c
                \<and> dict_index c CONTAINER_PROVIDER_KEY = Inr (CtrProvType_value PKS)
                \<and> dict_index c ''vc'' = Inr k)"
    by fastforce
  from result have cover: "\<And>n c. n \<in> set names \<Longrightarrow>
             get_ovdc_container_provider_metadata w (enum_kw org_name n) = Inr c \<Longrightarrow>
             dict_index c CONTAINER_PROVIDER_KEY = Inr (CtrProvType_value PKS) \<Longrightarrow>
             (\<exists>k \<in> fst ` set d'. dict_index c ''vc'' = Inr k)"
    by blast
  from result have keys: "distinct (map fst d')" by simp
  have owned: "\<forall>c \<in> set ctxs. \<exists>n \<in> set names.
             get_ovdc_container_provider_metadata w (enum_kw org_name n) = Inr c
             \<and> dict_index c CONTAINER_PROVIDER_KEY = Inr (CtrProvType_value PKS)"
    using origin ctxs by fastforce
  have covered: "\<exists>c' \<in> set ctxs. dict_index c' ''vc'' = dict_index c ''vc''"
    if "n \<in> set names"
      "get_ovdc_container_provider_metadata w (enum_kw org_name n) = Inr c"
      "dict_index c CONTAINER_PROVIDER_KEY = Inr (CtrProvType_value PKS)" for n c
  proof -
    from cover [OF that] obtain k c' where "(k, c') \<in> set d'" "dict_index c ''vc'' = Inr k"
      by auto
    with origin [of k c'] ctxs show ?thesis by force
  qed
  have "map (\<lambda>c. dict_index c ''vc'') ctxs = map (\<lambda>e. Inr (fst e)) d'"
    unfolding ctxs using origin by (auto simp add: map_eq_conv)
  also have "\<dots> = map Inr (map fst d')" by simp
  finally have "map (\<lambda>c. dict_index c ''vc'') ctxs = map Inr (map fst d')" .
  moreover have "distinct (map Inr (map fst d') :: (exn + pyval) list)"
    using keys by (subst distinct_map) simp
  ultimately have "distinct (map (\<lambda>c. dict_index c ''vc'') ctxs)"
    by simp
  with names tr owned covered show ?thesis by blast
qed

theorem accounts_deduplicated_by_endpoint_witness:
  "pks_cache (manager_example []) = Some pks_cache_example
   \<and> \<not> is_sysadmin world_example
   \<and> \<not> do_orgs_have_exclusive_pks_account pks_cache_example
   \<and> create_pks_context_for_all_accounts_in_org world_example (manager_example []) [] =
       (Inr [pks_ctx_vc1, pks_ctx_vc2], enumeration_trace_example)
   \<and> get_ovdc_container_provider_metadata world_example (enum_kw (PStr ''Acme'') (PStr ''vdc2'')) =
       Inr pks_ctx_vc1
   \<and> get_ovdc_container_provider_metadata world_example (enum_kw (PStr ''Acme'') (PStr ''vdc3'')) =
       Inr pks_ctx_vc1
   \<and> distinct (map (\<lambda>c. dict_index c ''vc'') [pks_ctx_vc1, pks_ctx_vc2])"
proof -
  let ?self = "manager_example []"
  have cache: "pks_cache ?self = Some pks_cache_example"
    by (simp add: manager_example_def)
  have user: "\<not> is_sysadmin world_example"
    by (simp add: world_example_simps)
  have shared: "\<not> do_orgs_have_exclusive_pks_account pks_cache_example"
    by (simp add: pks_cache_example_def)
  have org: "PStr ''Acme'' = dict_get (session ?self) ''org''"
    by code_simp
  have run: "create_pks_context_for_all_accounts_in_org world_example ?self [] =
       (Inr [pks_ctx_vc1, pks_ctx_vc2], enumeration_trace_example)"
    by code_simp
  have vdc2: "get_ovdc_container_provider_metadata world_example
                (enum_kw (PStr ''Acme'') (PStr ''vdc2'')) = Inr pks_ctx_vc1"
    by code_simp
  have vdc3: "get_ovdc_container_provider_metadata world_example
                (enum_kw (PStr ''Acme'') (PStr ''vdc3'')) = Inr pks_ctx_vc1"
    by code_simp
  from accounts_deduplicated_by_endpoint [OF cache user shared org run]
  have "distinct (map (\<lambda>c. dict_index c ''vc'') [pks_ctx_vc1, pks_ctx_vc2])"
    by blast
  with cache user shared run vdc2 vdc3 show ?thesis by blast
qed

section \<open>Listing the clusters of all providers\<close>

lemma listings_simps [simp]:
  "listings [] = []"
  "listings (e # tr) = listing_of e @ listings tr"
  "listings (tr @ tr') = listings tr @ listings tr'"
  by (simp_all add: listings_def)

lemma metadata_lookup_no_listing:
  "list_all is_metadata_lookup tr \<Longrightarrow> listings tr = []"
proof (induction tr)
  case Nil
  show ?case by simp
next
  case (Cons e tr)
  then show ?case by (cases e) simp_all
qed

lemma vcd_cluster_of_fields:
  "vcd_cluster_of cluster =
     [(''name'', dict_get cluster ''name''), (''vdc'', dict_get cluster ''vdc''),
      (''status'', dict_get cluster ''status''),
      (CONTAINER_PROVIDER_KEY, CtrProvType_value VCD)]"
  by (simp add: vcd_cluster_of_def dict_comprehension_common dict_get_def
      CONTAINER_PROVIDER_KEY_def)

lemma get_truncated_cluster_info_fields:
  assumes "get_truncated_cluster_info cluster b common_cluster_properties = Inr r"
  shows "\<exists>vdc status. r = [(''name'', dict_get cluster ''name''), (''vdc'', PStr vdc),
                             (''status'', PStr status)]"
  using assms
  by (auto simp add: get_truncated_cluster_info_def dict_comprehension_common Let_def
      dict_get_def split: sum.splits if_splits)

lemma pks_clusters_of_fields:
  assumes "pks_clusters_of b clusters = Inr ps"
  shows "list_all2 (\<lambda>cluster p. \<exists>vdc status.
            get_truncated_cluster_info cluster b common_cluster_properties =
              Inr [(''name'', dict_get cluster ''name''), (''vdc'', PStr vdc),
                   (''status'', PStr status)]
            \<and> p = [(''name'', dict_get cluster ''name''), (''vdc'', PStr vdc),
                    (''status'', PStr status),
                    (CONTAINER_PROVIDER_KEY, CtrProvType_value PKS)]) clusters ps"
  using assms
proof (induction clusters arbitrary: ps)
  case Nil
  then show ?case by simp
next
  case (Cons cluster rest)
  from Cons.prems obtain r where r: "get_truncated_cluster_info cluster b common_cluster_properties = Inr r"
    by (cases "get_truncated_cluster_info cluster b common_cluster_properties") auto
  from Cons.prems r obtain ps' where ps': "pks_clusters_of b rest = Inr ps'"
    by (cases "pks_clusters_of b rest") auto
  from get_truncated_cluster_info_fields [OF r] obtain vdc status where
    fields: "r = [(''name'', dict_get cluster ''name''), (''vdc'', PStr vdc),
                  (''status'', PStr status)]"
    by blast
  from Cons.prems r ps' fields
  have "ps = [(''name'', dict_get cluster ''name''), (''vdc'', PStr vdc),
              (''status'', PStr status), (CONTAINER_PROVIDER_KEY, CtrProvType_value PKS)] # ps'"
    by (auto simp add: CONTAINER_PROVIDER_KEY_def)
  with Cons.IH [OF ps'] r fields show ?case by auto
qed

lemma list_clusters_in_pks_result:
  assumes "list_clusters_in_pks w ctxs acc tr = (Inr res, tr')"
  shows "\<exists>pks_lists pss.
           length pks_lists = length ctxs
         \<and> tr' = tr @ map (\<lambda>(ctx, l). EvListClusters (PKSBroker ctx) (Inr l)) (zip ctxs pks_lists)
         \<and> list_all2 (\<lambda>(ctx, l) ps. pks_clusters_of (PKSBroker ctx) l = Inr ps)
              (zip ctxs pks_lists) pss
         \<and> res = acc @ concat pss"
  using assms
proof (induction ctxs arbitrary: acc tr)
  case Nil
  then have "tr' = tr" "res = acc" by simp_all
  then show ?case by (intro exI [of _ "[]"]) simp
next
  case (Cons pks_ctx rest)
  let ?b = "PKSBroker pks_ctx"
  from Cons.prems obtain l where l: "broker_list_clusters w tr ?b = Inr l"
    by (cases "broker_list_clusters w tr ?b") (auto simp add: Let_def)
  from Cons.prems l obtain ps where ps: "pks_clusters_of ?b l = Inr ps"
    by (cases "pks_clusters_of ?b l") (auto simp add: Let_def)
  from Cons.prems l ps
  have "list_clusters_in_pks w rest (acc @ ps) (tr @ [EvListClusters ?b (Inr l)]) = (Inr res, tr')"
    by (simp add: Let_def)
  from Cons.IH [OF this] obtain pks_lists pss where
    ih: "length pks_lists = length rest"
      "tr' = (tr @ [EvListClusters ?b (Inr l)]) @
             map (\<lambda>(ctx, l). EvListClusters (PKSBroker ctx) (Inr l)) (zip rest pks_lists)"
      "list_all2 (\<lambda>(ctx, l) ps. pks_clusters_of (PKSBroker ctx) l = Inr ps)
              (zip rest pks_lists) pss"
      "res = (acc @ ps) @ concat pss"
    by blast
  show ?case
    by (intro exI [of _ "l # pks_lists"] exI [of _ "ps # pss"]) (use ih ps in simp)
qed


text \<open>
  Claim C7. Take a list request without a virtual datacenter that returns a response. The
  enumeration of accounts yields some contexts \<open>ctxs\<close>; \<^verbatim>\<open>list_clusters\<close> has been called
  on the native-compute broker first and then once on the broker of each context, in the
  order of \<open>ctxs\<close>. The body of the response is the list of the native-compute clusters,
  each reduced to its name, vdc and status and tagged with the native provider kind,
  followed by the clusters of the external-service accounts in the same order, each being
  the projection of the claim C6 with the fields name, vdc and status and tagged with the
  external provider kind.
\<close>

theorem list_clusters_native_then_external:
  assumes novdc: "\<not> truthy (py_or (dict_get (req_spec self) ''vdc'')
                                    (dict_get (req_qparams self) ''vdc''))"
      and run: "invoke w self LIST_CLUSTERS tr = (Inr resp, tr @ new)"
  shows "\<exists>vcd_list ctxs pks_lists pss.
           fst (create_pks_context_for_all_accounts_in_org w self []) = Inr ctxs
         \<and> length pks_lists = length ctxs
         \<and> listings new =
             (VcdBroker, Inr vcd_list) #
             map (\<lambda>(ctx, l). (PKSBroker ctx, Inr l)) (zip ctxs pks_lists)
         \<and> list_all2
             (\<lambda>(ctx, l) ps.
                list_all2
                  (\<lambda>cluster p. \<exists>vdc status.
                     get_truncated_cluster_info cluster (PKSBroker ctx) common_cluster_properties =
                       Inr [(''name'', dict_get cluster ''name''), (''vdc'', PStr vdc),
                            (''status'', PStr status)]
                     \<and> p = [(''name'', dict_get cluster ''name''), (''vdc'', PStr vdc),
                             (''status'', PStr status),
                             (CONTAINER_PROVIDER_KEY, CtrProvType_value PKS)])
                  l ps)
             (zip ctxs pks_lists) pss
         \<and> body resp =
             BList (map (\<lambda>cluster. [(''name'', dict_get cluster ''name''),
                                     (''vdc'', dict_get cluster ''vdc''),
                                     (''status'', dict_get cluster ''status''),
                                     (CONTAINER_PROVIDER_KEY, CtrProvType_value VCD)]) vcd_list
                    @ concat pss)
         \<and> status_code resp = OK"
proof -
  let ?self = "self\<lparr>is_ovdc_present_in_request :=
                         py_or (dict_get (req_spec self) ''vdc'')
                               (dict_get (req_qparams self) ''vdc'')\<rparr>"
  let ?enum = "create_pks_context_for_all_accounts_in_org w self"
  from run obtain res where
    list: "list_clusters w ?self tr = (Inr res, tr @ new)"
    and resp: "resp = \<lparr>body = BList res, status_code = OK\<rparr>"
    by (auto simp add: invoke_def Let_def respond_def split: prod.splits sum.splits)
  from list novdc obtain vcd_list where
    vcd: "broker_list_clusters w tr VcdBroker = Inr vcd_list"
    by (cases "broker_list_clusters w tr VcdBroker") (auto simp add: list_clusters_def Let_def)
  let ?tr1 = "tr @ [EvListClusters VcdBroker (Inr vcd_list)]"
  have enum: "?enum ?tr1 = (fst (?enum []), ?tr1 @ snd (?enum []))"
    by (rule create_pks_context_trace)
  from list novdc vcd enum obtain ctxs where ctxs: "fst (?enum []) = Inr ctxs"
    by (cases "fst (?enum [])") (auto simp add: list_clusters_def Let_def)
  from list novdc vcd enum ctxs obtain pks_clusters where
    loop: "list_clusters_in_pks w ctxs [] (?tr1 @ snd (?enum [])) = (Inr pks_clusters, tr @ new)"
    and res: "res = map vcd_cluster_of vcd_list @ pks_clusters"
    by (auto simp add: list_clusters_def Let_def split: prod.splits sum.splits)
  from list_clusters_in_pks_result [OF loop] obtain pks_lists pss where
    len: "length pks_lists = length ctxs"
    and trace: "tr @ new = (?tr1 @ snd (?enum [])) @
                  map (\<lambda>(ctx, l). EvListClusters (PKSBroker ctx) (Inr l)) (zip ctxs pks_lists)"
    and each: "list_all2 (\<lambda>(ctx, l) ps. pks_clusters_of (PKSBroker ctx) l = Inr ps)
                 (zip ctxs pks_lists) pss"
    and all: "pks_clusters = concat pss"
    by auto
  from trace have new: "new = [EvListClusters VcdBroker (Inr vcd_list)] @ snd (?enum []) @
                  map (\<lambda>(ctx, l). EvListClusters (PKSBroker ctx) (Inr l)) (zip ctxs pks_lists)"
    by simp
  have "listings (map (\<lambda>(ctx, l). EvListClusters (PKSBroker ctx) (Inr l)) z) =
          map (\<lambda>(ctx, l). (PKSBroker ctx, Inr l)) z" for z :: "(pydict \<times> pydict list) list"
    by (induction z) auto
  with new metadata_lookup_no_listing [OF create_pks_context_lookups [of w self]]
  have listed: "listings new =
             (VcdBroker, Inr vcd_list) #
             map (\<lambda>(ctx, l). (PKSBroker ctx, Inr l)) (zip ctxs pks_lists)"
    by simp
  from each have fields: "list_all2
             (\<lambda>(ctx, l) ps.
                list_all2
                  (\<lambda>cluster p. \<exists>vdc status.
                     get_truncated_cluster_info cluster (PKSBroker ctx) common_cluster_properties =
                       Inr [(''name'', dict_get cluster ''name''), (''vdc'', PStr vdc),
                            (''status'', PStr status)]
                     \<and> p = [(''name'', dict_get cluster ''name''), (''vdc'', PStr vdc),
                             (''status'', PStr status),
                             (CONTAINER_PROVIDER_KEY, CtrProvType_value PKS)])
                  l ps)
             (zip ctxs pks_lists) pss"
    by (rule list_all2_mono) (auto dest: pks_clusters_of_fields)
  have native: "map vcd_cluster_of vcd_list =
                  map (\<lambda>cluster. [(''name'', dict_get cluster ''name''),
                                     (''vdc'', dict_get cluster ''vdc''),
                                     (''status'', dict_get cluster ''status''),
                                     (CONTAINER_PROVIDER_KEY, CtrProvType_value VCD)]) vcd_list"
    by (simp add: vcd_cluster_of_fields)
  from ctxs len listed fields resp res all native show ?thesis
    by (intro exI [of _ vcd_list] exI [of _ ctxs] exI [of _ pks_lists] exI [of _ pss]) simp
qed


theorem list_clusters_native_then_external_witness:
  "\<not> truthy (py_or (dict_get (req_spec (manager_example [])) ''vdc'')
                    (dict_get (req_qparams (manager_example [])) ''vdc''))
   \<and> invoke world_example (manager_example []) LIST_CLUSTERS [] =
       (Inr \<lparr>body = BList [[(''name'', PStr ''web''), (''vdc'', PStr ''vdc1''),
                             (''status'', PStr ''POWERED_ON''),
                             (''container_provider'', PStr ''vcd'')],
                            [(''name'', PStr ''app''), (''vdc'', PStr ''vdc4''),
                             (''status'', PStr ''create succeeded''),
                             (''container_provider'', PStr ''pks'')]],
             status_code = OK\<rparr>,
        [] @ list_trace_example)
   \<and> fst (create_pks_context_for_all_accounts_in_org world_example (manager_example []) []) =
       Inr [pks_ctx_vc1, pks_ctx_vc2]
   \<and> listings list_trace_example =
       [(VcdBroker, Inr [cluster_web]), (PKSBroker pks_ctx_vc1, Inr []),
        (PKSBroker pks_ctx_vc2, Inr [cluster_app])]
   \<and> fst (hd (listings list_trace_example)) = VcdBroker
   \<and> length (listings list_trace_example) = Suc (length [pks_ctx_vc1, pks_ctx_vc2])"
proof -
  let ?self = "manager_example []"
  have novdc: "\<not> truthy (py_or (dict_get (req_spec ?self) ''vdc'')
                                  (dict_get (req_qparams ?self) ''vdc''))"
    by code_simp
  have run: "invoke world_example ?self LIST_CLUSTERS [] =
       (Inr \<lparr>body = BList [[(''name'', PStr ''web''), (''vdc'', PStr ''vdc1''),
                             (''status'', PStr ''POWERED_ON''),
                             (''container_provider'', PStr ''vcd'')],
                            [(''name'', PStr ''app''), (''vdc'', PStr ''vdc4''),
                             (''status'', PStr ''create succeeded''),
                             (''container_provider'', PStr ''pks'')]],
             status_code = OK\<rparr>,
        [] @ list_trace_example)"
    by code_simp
  have enum: "fst (create_pks_context_for_all_accounts_in_org world_example ?self []) =
                Inr [pks_ctx_vc1, pks_ctx_vc2]"
    by code_simp
  have listed: "listings list_trace_example =
       [(VcdBroker, Inr [cluster_web]), (PKSBroker pks_ctx_vc1, Inr []),
        (PKSBroker pks_ctx_vc2, Inr [cluster_app])]"
    by (simp add: list_trace_example_def enumeration_trace_example_def)
  from list_clusters_native_then_external [OF novdc run] enum
  have "fst (hd (listings list_trace_example)) = VcdBroker
        \<and> length (listings list_trace_example) = Suc (length [pks_ctx_vc1, pks_ctx_vc2])"
    by auto
  with novdc run enum listed show ?thesis by blast
qed

section \<open>Requests that name their virtual datacenter\<close>

lemma get_broker_based_on_vdc_direct:
  assumes "ovdc_name = py_or (dict_get (req_spec self) ''vdc'') (dict_get (req_qparams self) ''vdc'')"
      and "org_name = py_or (py_or (dict_get (req_spec self) ''org'')
                                   (dict_get (req_qparams self) ''org''))
                            (dict_get (session self) ''org'')"
      and "truthy ovdc_name" and "truthy org_name"
      and "get_ovdc_container_provider_metadata w (resolution_kwargs ovdc_name org_name) = Inr ctx"
      and "dict_get ctx CONTAINER_PROVIDER_KEY = CtrProvType_value PKS
           \<or> dict_get ctx CONTAINER_PROVIDER_KEY = CtrProvType_value VCD"
  shows "get_broker_based_on_vdc w self tr =
           (Inr (if dict_get ctx CONTAINER_PROVIDER_KEY = CtrProvType_value PKS
                 then PKSBroker ctx else VcdBroker),
            tr @ [EvLog (LogOrgVdc org_name ovdc_name),
                  EvGetMetadata (resolution_kwargs ovdc_name org_name) (Inr ctx),
                  EvLog (LogOvdcMetadata ovdc_name org_name ctx)])"
  using assms
  by (auto simp add: get_broker_based_on_vdc_def resolution_kwargs_def Let_def)

text \<open>
  Claim C5, amended. Take a request that names a virtual datacenter, by an organization
  that is known, whose ownership metadata names the native-compute or the external-service
  provider; \<open>broker\<close> is the broker of that provider. A get-cluster-info, get-cluster-config
  or list-clusters request makes exactly one lookup of metadata and exactly one call to a
  broker, which is the call of its own method on \<open>broker\<close>. A resize or delete request
  makes the same single lookup and calls no broker but \<open>broker\<close>: first
  \<^verbatim>\<open>get_cluster_info\<close> and then, unless that raised, \<^verbatim>\<open>resize_cluster\<close> or
  \<^verbatim>\<open>delete_cluster\<close>. A create request starts, whatever it names, with the search of
  all providers, whose first probe goes to the native-compute broker: its trace is the
  trace of that search, in which brokers are called only to be probed, followed by the
  rest of the request. The rest is empty when the search raised or found a cluster.
  Otherwise the rest is the resolution of the broker, with its single lookup, followed by
  one call of \<^verbatim>\<open>create_cluster\<close> on \<open>broker\<close>.
\<close>

theorem explicit_vdc_resolves_directly:
  assumes ovdc: "ovdc_name = py_or (dict_get (req_spec self) ''vdc'')
                                   (dict_get (req_qparams self) ''vdc'')"
      and org: "org_name = py_or (py_or (dict_get (req_spec self) ''org'')
                                        (dict_get (req_qparams self) ''org''))
                                 (dict_get (session self) ''org'')"
      and named: "truthy ovdc_name" "truthy org_name"
      and owned: "get_ovdc_container_provider_metadata w (resolution_kwargs ovdc_name org_name) =
                    Inr ctx"
      and kind: "dict_get ctx CONTAINER_PROVIDER_KEY = CtrProvType_value PKS
                 \<or> dict_get ctx CONTAINER_PROVIDER_KEY = CtrProvType_value VCD"
      and broker: "broker = (if dict_get ctx CONTAINER_PROVIDER_KEY = CtrProvType_value PKS
                             then PKSBroker ctx else VcdBroker)"
      and run: "invoke w self op tr = (res, tr @ new)"
  shows "(op \<in> {GET_CLUSTER, GET_CLUSTER_CONFIG, LIST_CLUSTERS} \<longrightarrow>
            lookups new = [resolution_kwargs ovdc_name org_name] \<and> broker_calls new = [broker])
       \<and> (op \<in> {RESIZE_CLUSTER, DELETE_CLUSTER} \<longrightarrow>
            lookups new = [resolution_kwargs ovdc_name org_name]
            \<and> map fst (probes new) = [broker]
            \<and> broker_calls new =
                (if list_all (\<lambda>p. isl (snd p)) (probes new) then [broker]
                 else [broker, broker]))
       \<and> (op = CREATE_CLUSTER \<longrightarrow> probes new \<noteq> [] \<and> fst (hd (probes new)) = VcdBroker)
       \<and> (op = GET_CLUSTER \<longrightarrow> method_calls new = [(GetClusterInfo, broker)])
       \<and> (op = GET_CLUSTER_CONFIG \<longrightarrow> method_calls new = [(GetClusterConfig, broker)])
       \<and> (op = LIST_CLUSTERS \<longrightarrow> method_calls new = [(ListClusters, broker)])
       \<and> (op = RESIZE_CLUSTER \<longrightarrow>
            method_calls new =
              (GetClusterInfo, broker) #
              (if list_all (\<lambda>p. isl (snd p)) (probes new) then [] else [(ResizeCluster, broker)]))
       \<and> (op = DELETE_CLUSTER \<longrightarrow>
            method_calls new =
              (GetClusterInfo, broker) #
              (if list_all (\<lambda>p. isl (snd p)) (probes new) then [] else [(DeleteCluster, broker)]))
       \<and> (op = CREATE_CLUSTER \<longrightarrow>
            (\<exists>res_f new_f rest.
                find_cluster_in_org w self (dict_get (req_spec self) ''cluster_name'') tr =
                  (res_f, tr @ new_f)
                \<and> new = new_f @ rest
                \<and> method_calls new_f = map (\<lambda>p. (GetClusterInfo, fst p)) (probes new_f)
                \<and> (if isl res_f \<or> \<not> list_all (\<lambda>p. missed (snd p)) (probes new_f)
                   then rest = []
                   else lookups rest = [resolution_kwargs ovdc_name org_name]
                        \<and> method_calls rest = [(CreateCluster, broker)]
                        \<and> (\<exists>kw r. rest = [EvLog (LogOrgVdc org_name ovdc_name),
                                           EvGetMetadata (resolution_kwargs ovdc_name org_name)
                                             (Inr ctx),
                                           EvLog (LogOvdcMetadata ovdc_name org_name ctx),
                                           EvCreateCluster broker kw r]))))"
proof -
  let ?flag = "py_or (dict_get (req_spec self) ''vdc'') (dict_get (req_qparams self) ''vdc'')"
  let ?self = "self\<lparr>is_ovdc_present_in_request := ?flag\<rparr>"
  let ?name = "dict_get (req_spec self) ''cluster_name''"
  let ?three = "[EvLog (LogOrgVdc org_name ovdc_name),
                 EvGetMetadata (resolution_kwargs ovdc_name org_name) (Inr ctx),
                 EvLog (LogOvdcMetadata ovdc_name org_name ctx)]"
  have flag: "truthy (is_ovdc_present_in_request ?self)"
    using ovdc named by simp
  have direct: "get_broker_based_on_vdc w ?self tr' = (Inr broker, tr' @ ?three)" for tr'
    using get_broker_based_on_vdc_direct [OF ovdc org named owned kind, of tr'] broker
    by simp
  have info: "get_cluster_info w ?self spec tr =
                (let r = broker_get_cluster_info w (tr @ ?three) broker ?name
                 in (case r of Inl e \<Rightarrow> Inl e | Inr cluster \<Rightarrow> Inr (cluster, broker),
                     tr @ ?three @ [EvGetClusterInfo broker ?name r]))"
    if "dict_index spec ''cluster_name'' = Inr ?name" for spec
    using that flag direct [of tr]
    by (auto simp add: get_cluster_info_def Let_def split: sum.splits)
  have idx: "dict_index ((''cluster_name'', v) # rest) ''cluster_name'' = Inr v" for v rest
    by (simp add: dict_index_def)
  show ?thesis
  proof (cases op)
    case GET_CLUSTER
    with run info [OF idx] show ?thesis
      by (auto simp add: invoke_def Let_def respond_def split: sum.splits prod.splits)
  next
    case GET_CLUSTER_CONFIG
    with run flag direct [of tr] show ?thesis
      by (auto simp add: invoke_def Let_def respond_def get_cluster_config_def dict_index_def
          split: sum.splits prod.splits)
  next
    case LIST_CLUSTERS
    with run flag direct [of tr] show ?thesis
      by (auto simp add: invoke_def Let_def respond_def list_clusters_def
          split: sum.splits prod.splits)
  next
    case RESIZE_CLUSTER
    with run info [OF idx] show ?thesis
      by (auto simp add: invoke_def Let_def respond_def resize_cluster_def
          split: sum.splits prod.splits)
  next
    case DELETE_CLUSTER
    with run info [OF idx] show ?thesis
      by (auto simp add: invoke_def Let_def respond_def delete_cluster_def dict_index_def
          split: sum.splits prod.splits)
  next
    case CREATE_CLUSTER
    let ?spec = "[(''cluster_name'', ?name),
                   (''vdc_name'', dict_get (req_spec self) ''vdc''),
                   (''node_count'', dict_get (req_spec self) ''node_count''),
                   (''storage_profile'', dict_get (req_spec self) ''storage_profile''),
                   (''network_name'', dict_get (req_spec self) ''network''),
                   (''template'', dict_get (req_spec self) ''template''),
                   (''pks_plan'', dict_get (req_spec self) ''pks_plan''),
                   (''pks_ext_host'', dict_get (req_spec self) ''pks_ext_host'')]"
    obtain res_f new_f where search: "find_cluster_in_org w self ?name tr = (res_f, tr @ new_f)"
      using find_cluster_in_org_extends [of w self ?name tr]
      by (cases "find_cluster_in_org w self ?name tr") auto
    note outcome = find_cluster_in_org_outcome [OF search]
    from find_cluster_in_org_search [OF search]
    have first: "probes new_f \<noteq> []" "fst (hd (probes new_f)) = VcdBroker"
      and events: "list_all is_search_event new_f"
      by blast+
    note methods = search_event_methods [OF events]
    obtain res_c tr_c where create: "create_cluster w ?self ?spec tr = (res_c, tr_c)"
      by (cases "create_cluster w ?self ?spec tr")
    with run CREATE_CLUSTER have tr_c: "tr_c = tr @ new"
      by (auto simp add: invoke_create respond_def split: sum.splits)
    have name: "dict_index ?spec ''cluster_name'' = Inr ?name"
      by (rule idx)
    have "\<exists>rest. new = new_f @ rest
            \<and> (if isl res_f \<or> \<not> list_all (\<lambda>p. missed (snd p)) (probes new_f)
               then rest = []
               else \<exists>kw r. rest = ?three @ [EvCreateCluster broker kw r])"
    proof (cases res_f)
      case (Inl e)
      with create name search tr_c have "new = new_f"
        by (auto simp add: create_cluster_def)
      with Inl show ?thesis by simp
    next
      case (Inr found)
      show ?thesis
      proof (cases "case found of None \<Rightarrow> True | Some (cluster, _) \<Rightarrow> cluster = []")
        case False
        with create name search tr_c Inr have "new = new_f"
          by (auto simp add: create_cluster_def)
        moreover from outcome Inr False
        have "\<not> list_all (\<lambda>p. missed (snd p)) (probes new_f)"
          by (auto split: option.splits)
        ultimately show ?thesis by simp
      next
        case True
        with outcome Inr have missed: "list_all (\<lambda>p. missed (snd p)) (probes new_f)"
          by (auto split: option.splits)
        let ?kw = "kwargs_of ?spec"
        let ?r = "broker_create_cluster w ((tr @ new_f) @ ?three) broker ?kw"
        from create name search tr_c Inr True direct [of "tr @ new_f"]
        have "new = new_f @ ?three @ [EvCreateCluster broker ?kw ?r]"
          by (auto simp add: create_cluster_def Let_def)
        with missed Inr show ?thesis by auto
      qed
    qed
    then obtain rest where new: "new = new_f @ rest"
      and rest: "if isl res_f \<or> \<not> list_all (\<lambda>p. missed (snd p)) (probes new_f)
                 then rest = []
                 else \<exists>kw r. rest = ?three @ [EvCreateCluster broker kw r]"
      by blast
    from rest
    have rest': "if isl res_f \<or> \<not> list_all (\<lambda>p. missed (snd p)) (probes new_f)
                   then rest = []
                   else lookups rest = [resolution_kwargs ovdc_name org_name]
                        \<and> method_calls rest = [(CreateCluster, broker)]
                        \<and> (\<exists>kw r. rest = [EvLog (LogOrgVdc org_name ovdc_name),
                                           EvGetMetadata (resolution_kwargs ovdc_name org_name)
                                             (Inr ctx),
                                           EvLog (LogOvdcMetadata ovdc_name org_name ctx),
                                           EvCreateCluster broker kw r])"
      by (auto split: if_splits)
    from new first have "probes new \<noteq> []" "fst (hd (probes new)) = VcdBroker"
      by simp_all
    with CREATE_CLUSTER search new methods rest' show ?thesis
      by auto
  qed (use run in simp_all)
qed

text \<open>
  Claim C5, as stated, at a create request that names \<open>vdc4\<close>, which is owned by the external
  service: the dispatcher probes the native-compute broker and both accounts before it
  resolves the broker of \<open>vdc4\<close>, so four calls go to brokers and five lookups to the
  directory. A resize request that names \<open>vdc4\<close> makes two calls to the broker of \<open>vdc4\<close>.
\<close>

theorem create_with_explicit_vdc_counterexample:
  "py_or (dict_get (req_spec (manager_example [(''cluster_name'', PStr ''new''),
                                                (''vdc'', PStr ''vdc4'')])) ''vdc'')
         (dict_get (req_qparams (manager_example [(''cluster_name'', PStr ''new''),
                                                   (''vdc'', PStr ''vdc4'')])) ''vdc'') =
     PStr ''vdc4''
   \<and> get_ovdc_container_provider_metadata world_example
         (resolution_kwargs (PStr ''vdc4'') (PStr ''Acme'')) = Inr pks_ctx_vc2
   \<and> invoke world_example
         (manager_example [(''cluster_name'', PStr ''new''), (''vdc'', PStr ''vdc4'')])
         CREATE_CLUSTER [] =
       (Inr \<lparr>body = BVal (PStr ''task-create''), status_code = ACCEPTED\<rparr>,
        search_trace_missing (PStr ''new'') @ resolution_trace_example ''vdc4'' pks_ctx_vc2 @
        [EvCreateCluster (PKSBroker pks_ctx_vc2)
           (create_kwargs_example (PStr ''new'') (PStr ''vdc4''))
           (Inr (PStr ''task-create''))])
   \<and> broker_calls
         (search_trace_missing (PStr ''new'') @ resolution_trace_example ''vdc4'' pks_ctx_vc2 @
          [EvCreateCluster (PKSBroker pks_ctx_vc2)
             (create_kwargs_example (PStr ''new'') (PStr ''vdc4''))
             (Inr (PStr ''task-create''))]) =
       [VcdBroker, PKSBroker pks_ctx_vc1, PKSBroker pks_ctx_vc2, PKSBroker pks_ctx_vc2]
   \<and> length (lookups
         (search_trace_missing (PStr ''new'') @ resolution_trace_example ''vdc4'' pks_ctx_vc2 @
          [EvCreateCluster (PKSBroker pks_ctx_vc2)
             (create_kwargs_example (PStr ''new'') (PStr ''vdc4''))
             (Inr (PStr ''task-create''))])) = 5
   \<and> invoke world_example
         (manager_example [(''cluster_name'', PStr ''app''), (''vdc'', PStr ''vdc4''),
                           (''node_count'', PInt 2)])
         RESIZE_CLUSTER [] =
       (Inr \<lparr>body = BVal (PStr ''task-resize''), status_code = ACCEPTED\<rparr>,
        resolution_trace_example ''vdc4'' pks_ctx_vc2 @
        [EvGetClusterInfo (PKSBroker pks_ctx_vc2) (PStr ''app'') (Inr cluster_app),
         EvResizeCluster (PKSBroker pks_ctx_vc2)
           [(''curr_cluster_info'', ARec cluster_app), (''cluster_name'', AVal (PStr ''app'')),
            (''node_count'', AVal (PInt 2))]
           (Inr (PStr ''task-resize''))])
   \<and> broker_calls
         (resolution_trace_example ''vdc4'' pks_ctx_vc2 @
          [EvGetClusterInfo (PKSBroker pks_ctx_vc2) (PStr ''app'') (Inr cluster_app),
           EvResizeCluster (PKSBroker pks_ctx_vc2)
             [(''curr_cluster_info'', ARec cluster_app), (''cluster_name'', AVal (PStr ''app'')),
              (''node_count'', AVal (PInt 2))]
             (Inr (PStr ''task-resize''))]) =
       [PKSBroker pks_ctx_vc2, PKSBroker pks_ctx_vc2]"
  by code_simp

theorem explicit_vdc_resolves_directly_witness:
  "truthy (PStr ''vdc4'') \<and> truthy (PStr ''Acme'')
   \<and> get_ovdc_container_provider_metadata world_example
         (resolution_kwargs (PStr ''vdc4'') (PStr ''Acme'')) = Inr pks_ctx_vc2
   \<and> dict_get pks_ctx_vc2 CONTAINER_PROVIDER_KEY = CtrProvType_value PKS
   \<and> invoke world_example
         (manager_example [(''cluster_name'', PStr ''app''), (''vdc'', PStr ''vdc4'')])
         GET_CLUSTER [] =
       (Inr \<lparr>body = BDict cluster_app, status_code = OK\<rparr>,
        [] @ (resolution_trace_example ''vdc4'' pks_ctx_vc2 @
              [EvGetClusterInfo (PKSBroker pks_ctx_vc2) (PStr ''app'') (Inr cluster_app)]))
   \<and> lookups (resolution_trace_example ''vdc4'' pks_ctx_vc2 @
              [EvGetClusterInfo (PKSBroker pks_ctx_vc2) (PStr ''app'') (Inr cluster_app)]) =
       [resolution_kwargs (PStr ''vdc4'') (PStr ''Acme'')]
   \<and> broker_calls (resolution_trace_example ''vdc4'' pks_ctx_vc2 @
              [EvGetClusterInfo (PKSBroker pks_ctx_vc2) (PStr ''app'') (Inr cluster_app)]) =
       [PKSBroker pks_ctx_vc2]
   \<and> invoke world_example
         (manager_example [(''cluster_name'', PStr ''app''), (''vdc'', PStr ''vdc4''),
                           (''node_count'', PInt 2)])
         RESIZE_CLUSTER [] =
       (Inr \<lparr>body = BVal (PStr ''task-resize''), status_code = ACCEPTED\<rparr>,
        [] @ (resolution_trace_example ''vdc4'' pks_ctx_vc2 @
              [EvGetClusterInfo (PKSBroker pks_ctx_vc2) (PStr ''app'') (Inr cluster_app),
               EvResizeCluster (PKSBroker pks_ctx_vc2)
                 [(''curr_cluster_info'', ARec cluster_app),
                  (''cluster_name'', AVal (PStr ''app'')), (''node_count'', AVal (PInt 2))]
                 (Inr (PStr ''task-resize''))]))
   \<and> method_calls (resolution_trace_example ''vdc4'' pks_ctx_vc2 @
              [EvGetClusterInfo (PKSBroker pks_ctx_vc2) (PStr ''app'') (Inr cluster_app),
               EvResizeCluster (PKSBroker pks_ctx_vc2)
                 [(''curr_cluster_info'', ARec cluster_app),
                  (''cluster_name'', AVal (PStr ''app'')), (''node_count'', AVal (PInt 2))]
                 (Inr (PStr ''task-resize''))]) =
       [(GetClusterInfo, PKSBroker pks_ctx_vc2), (ResizeCluster, PKSBroker pks_ctx_vc2)]
   \<and> invoke world_example
         (manager_example [(''cluster_name'', PStr ''new''), (''vdc'', PStr ''vdc4'')])
         CREATE_CLUSTER [] =
       (Inr \<lparr>body = BVal (PStr ''task-create''), status_code = ACCEPTED\<rparr>,
        [] @ (search_trace_missing (PStr ''new'') @
              (resolution_trace_example ''vdc4'' pks_ctx_vc2 @
               [EvCreateCluster (PKSBroker pks_ctx_vc2)
                  (create_kwargs_example (PStr ''new'') (PStr ''vdc4''))
                  (Inr (PStr ''task-create''))])))
   \<and> find_cluster_in_org world_example
         (manager_example [(''cluster_name'', PStr ''new''), (''vdc'', PStr ''vdc4'')])
         (PStr ''new'') [] = (Inr None, [] @ search_trace_missing (PStr ''new''))
   \<and> lookups (resolution_trace_example ''vdc4'' pks_ctx_vc2 @
               [EvCreateCluster (PKSBroker pks_ctx_vc2)
                  (create_kwargs_example (PStr ''new'') (PStr ''vdc4''))
                  (Inr (PStr ''task-create''))]) =
       [resolution_kwargs (PStr ''vdc4'') (PStr ''Acme'')]
   \<and> method_calls (resolution_trace_example ''vdc4'' pks_ctx_vc2 @
               [EvCreateCluster (PKSBroker pks_ctx_vc2)
                  (create_kwargs_example (PStr ''new'') (PStr ''vdc4''))
                  (Inr (PStr ''task-create''))]) =
       [(CreateCluster, PKSBroker pks_ctx_vc2)]"
proof -
  let ?self = "manager_example [(''cluster_name'', PStr ''app''), (''vdc'', PStr ''vdc4'')]"
  let ?new = "resolution_trace_example ''vdc4'' pks_ctx_vc2 @
              [EvGetClusterInfo (PKSBroker pks_ctx_vc2) (PStr ''app'') (Inr cluster_app)]"
  let ?self_r = "manager_example [(''cluster_name'', PStr ''app''), (''vdc'', PStr ''vdc4''),
                                  (''node_count'', PInt 2)]"
  let ?new_r = "resolution_trace_example ''vdc4'' pks_ctx_vc2 @
              [EvGetClusterInfo (PKSBroker pks_ctx_vc2) (PStr ''app'') (Inr cluster_app),
               EvResizeCluster (PKSBroker pks_ctx_vc2)
                 [(''curr_cluster_info'', ARec cluster_app),
                  (''cluster_name'', AVal (PStr ''app'')), (''node_count'', AVal (PInt 2))]
                 (Inr (PStr ''task-resize''))]"
  let ?self_c = "manager_example [(''cluster_name'', PStr ''new''), (''vdc'', PStr ''vdc4'')]"
  let ?rest_c = "resolution_trace_example ''vdc4'' pks_ctx_vc2 @
               [EvCreateCluster (PKSBroker pks_ctx_vc2)
                  (create_kwargs_example (PStr ''new'') (PStr ''vdc4''))
                  (Inr (PStr ''task-create''))]"
  have ovdc: "PStr ''vdc4'' = py_or (dict_get (req_spec ?self) ''vdc'')
                                    (dict_get (req_qparams ?self) ''vdc'')"
    by code_simp
  have org: "PStr ''Acme'' = py_or (py_or (dict_get (req_spec ?self) ''org'')
                                          (dict_get (req_qparams ?self) ''org''))
                                   (dict_get (session ?self) ''org'')"
    by code_simp
  have named: "truthy (PStr ''vdc4'')" "truthy (PStr ''Acme'')"
    by simp_all
  have owned: "get_ovdc_container_provider_metadata world_example
                 (resolution_kwargs (PStr ''vdc4'') (PStr ''Acme'')) = Inr pks_ctx_vc2"
    by code_simp
  have pks: "dict_get pks_ctx_vc2 CONTAINER_PROVIDER_KEY = CtrProvType_value PKS"
    by code_simp
  then have kind: "dict_get pks_ctx_vc2 CONTAINER_PROVIDER_KEY = CtrProvType_value PKS
                   \<or> dict_get pks_ctx_vc2 CONTAINER_PROVIDER_KEY = CtrProvType_value VCD"
    by simp
  from pks have broker: "PKSBroker pks_ctx_vc2 =
          (if dict_get pks_ctx_vc2 CONTAINER_PROVIDER_KEY = CtrProvType_value PKS
           then PKSBroker pks_ctx_vc2 else VcdBroker)"
    by simp
  have run: "invoke world_example ?self GET_CLUSTER [] =
       (Inr \<lparr>body = BDict cluster_app, status_code = OK\<rparr>, [] @ ?new)"
    by code_simp
  from explicit_vdc_resolves_directly [OF ovdc org named owned kind broker run]
  have get: "lookups ?new = [resolution_kwargs (PStr ''vdc4'') (PStr ''Acme'')]
        \<and> broker_calls ?new = [PKSBroker pks_ctx_vc2]"
    by simp
  have ovdc_r: "PStr ''vdc4'' = py_or (dict_get (req_spec ?self_r) ''vdc'')
                                      (dict_get (req_qparams ?self_r) ''vdc'')"
    by code_simp
  have org_r: "PStr ''Acme'' = py_or (py_or (dict_get (req_spec ?self_r) ''org'')
                                            (dict_get (req_qparams ?self_r) ''org''))
                                     (dict_get (session ?self_r) ''org'')"
    by code_simp
  have run_r: "invoke world_example ?self_r RESIZE_CLUSTER [] =
       (Inr \<lparr>body = BVal (PStr ''task-resize''), status_code = ACCEPTED\<rparr>, [] @ ?new_r)"
    by code_simp
  have answered: "\<not> list_all (\<lambda>p. isl (snd p)) (probes ?new_r)"
    by (simp add: resolution_trace_example_def)
  from explicit_vdc_resolves_directly [OF ovdc_r org_r named owned kind broker run_r] answered
  have resize: "method_calls ?new_r =
                  [(GetClusterInfo, PKSBroker pks_ctx_vc2), (ResizeCluster, PKSBroker pks_ctx_vc2)]"
    by simp
  have ovdc_c: "PStr ''vdc4'' = py_or (dict_get (req_spec ?self_c) ''vdc'')
                                      (dict_get (req_qparams ?self_c) ''vdc'')"
    by code_simp
  have org_c: "PStr ''Acme'' = py_or (py_or (dict_get (req_spec ?self_c) ''org'')
                                            (dict_get (req_qparams ?self_c) ''org''))
                                     (dict_get (session ?self_c) ''org'')"
    by code_simp
  have run_c: "invoke world_example ?self_c CREATE_CLUSTER [] =
       (Inr \<lparr>body = BVal (PStr ''task-create''), status_code = ACCEPTED\<rparr>,
        [] @ (search_trace_missing (PStr ''new'') @ ?rest_c))"
    by code_simp
  have name_c: "dict_get (req_spec ?self_c) ''cluster_name'' = PStr ''new''"
    by code_simp
  have search_c: "find_cluster_in_org world_example ?self_c (PStr ''new'') [] =
                    (Inr None, [] @ search_trace_missing (PStr ''new''))"
    by code_simp
  have missed_c: "list_all (\<lambda>p. missed (snd p)) (probes (search_trace_missing (PStr ''new'')))"
    by (simp add: search_trace_missing_def enumeration_trace_example_def missed_def)
  from explicit_vdc_resolves_directly [OF ovdc_c org_c named owned kind broker run_c]
  obtain res_f new_f rest where
    f: "find_cluster_in_org world_example ?self_c (dict_get (req_spec ?self_c) ''cluster_name'') [] =
          (res_f, [] @ new_f)"
    and split: "search_trace_missing (PStr ''new'') @ ?rest_c = new_f @ rest"
    and after: "if isl res_f \<or> \<not> list_all (\<lambda>p. missed (snd p)) (probes new_f)
                then rest = []
                else lookups rest = [resolution_kwargs (PStr ''vdc4'') (PStr ''Acme'')]
                     \<and> method_calls rest = [(CreateCluster, PKSBroker pks_ctx_vc2)]
                     \<and> (\<exists>kw r. rest = [EvLog (LogOrgVdc (PStr ''Acme'') (PStr ''vdc4'')),
                                        EvGetMetadata
                                          (resolution_kwargs (PStr ''vdc4'') (PStr ''Acme''))
                                          (Inr pks_ctx_vc2),
                                        EvLog (LogOvdcMetadata (PStr ''vdc4'') (PStr ''Acme'')
                                                 pks_ctx_vc2),
                                        EvCreateCluster (PKSBroker pks_ctx_vc2) kw r])"
    by blast
  from f search_c name_c have res_f: "res_f = Inr None"
    and new_f: "new_f = search_trace_missing (PStr ''new'')"
    by simp_all
  from split new_f have rest: "rest = ?rest_c" by simp
  from after res_f new_f missed_c rest
  have create: "lookups ?rest_c = [resolution_kwargs (PStr ''vdc4'') (PStr ''Acme'')]
                \<and> method_calls ?rest_c = [(CreateCluster, PKSBroker pks_ctx_vc2)]"
    by simp
  from named owned pks run get run_r resize run_c search_c create show ?thesis by blast
qed

end
